theory Spec2Isabelle
  imports Main "HOL-Library.Multiset"
begin

section \<open>Entity store (blog/models.py)\<close>

text \<open>
  Timestamps are integers (microseconds since the epoch, the resolution of
  \<^verbatim>\<open>timezone.now()\<close>). Python strings are modelled as \<open>string\<close>, one
  \<open>char\<close> per code point, so the model covers texts over Latin-1.
  Field names carry the model's name as a prefix where two models share a
  field name (\<^verbatim>\<open>title\<close>, \<^verbatim>\<open>text\<close>, \<^verbatim>\<open>is_published\<close>, \<^verbatim>\<open>created_at\<close>).
\<close>

type_synonym datetime = int

record User =
  user_id :: nat
  username :: string
  first_name :: string
  last_name :: string
  email :: string

text \<open>
  Modelled from the spec: \<^verbatim>\<open>Category\<close>, \<^verbatim>\<open>Location\<close> and \<^verbatim>\<open>Post\<close>
  inherit from \<^verbatim>\<open>PublishedModel\<close> and \<^verbatim>\<open>CreatedAt\<close> of core/models.py,
  which is not part of the source at hand. The spec gives each of the three
  models a boolean \<^verbatim>\<open>is_published\<close> and a timestamp \<^verbatim>\<open>created_at\<close>.
\<close>

record Category =
  category_id :: nat
  category_title :: string
  category_description :: string
  category_slug :: string
  category_is_published :: bool
  category_created_at :: datetime

record Location =
  location_id :: nat
  location_name :: string
  location_is_published :: bool
  location_created_at :: datetime

text \<open>
  \<^verbatim>\<open>Post.author\<close>, \<^verbatim>\<open>Post.category\<close> and \<^verbatim>\<open>Post.location\<close> are
  foreign keys declared \<^verbatim>\<open>null=True\<close>: the model stores the referenced
  primary key, \<open>None\<close> for NULL.
\<close>

record Post =
  post_id :: nat
  post_title :: string
  post_text :: string
  pub_date :: datetime
  post_author :: "nat option"
  post_category :: "nat option"
  post_location :: "nat option"
  post_image :: string
  post_is_published :: bool
  post_created_at :: datetime

record Comment =
  comment_id :: nat
  comment_text :: string
  comment_post :: nat
  comment_created_at :: datetime
  comment_author :: nat

text \<open>
  The database: one list of rows per table, in insertion order. Primary keys
  are assigned by the database and never reused: for the two tables the views
  insert into, \<open>posts_seq\<close> and \<open>comments_seq\<close> hold the largest key the
  table has ever been given.
\<close>

record DB =
  users :: "User list"
  categories :: "Category list"
  locations :: "Location list"
  posts :: "Post list"
  comments :: "Comment list"
  posts_seq :: nat
  comments_seq :: nat

section \<open>Framework primitives used by the source\<close>

datatype error =
    Http404 | AttributeError | ValueError | DoesNotExist | MultipleObjectsReturned
  | OverflowError | OperationalError

text \<open>
  \<^verbatim>\<open>QuerySet.get\<close>: exactly one matching row, else \<^verbatim>\<open>DoesNotExist\<close> or
  \<^verbatim>\<open>MultipleObjectsReturned\<close>. \<^verbatim>\<open>get_object_or_404\<close> turns the first into
  \<^verbatim>\<open>Http404\<close> and lets the second through.
\<close>

definition queryset_get :: "('a \<Rightarrow> bool) \<Rightarrow> 'a list \<Rightarrow> error + 'a" where
  "queryset_get P rows =
     (case filter P rows of
        [] \<Rightarrow> Inl DoesNotExist
      | [x] \<Rightarrow> Inr x
      | _ \<Rightarrow> Inl MultipleObjectsReturned)"

definition get_object_or_404 :: "('a \<Rightarrow> bool) \<Rightarrow> 'a list \<Rightarrow> error + 'a" where
  "get_object_or_404 P rows =
     (case queryset_get P rows of
        Inl DoesNotExist \<Rightarrow> Inl Http404
      | Inl e \<Rightarrow> Inl e
      | Inr x \<Rightarrow> Inr x)"

text \<open>
  Integer columns hold 64-bit signed values. A lookup by a primary key beyond
  that range does not reach the table: handing the value to the database
  raises \<^verbatim>\<open>OverflowError\<close>, which \<^verbatim>\<open>get_object_or_404\<close> lets through.
  Keys taken from a URL are non-negative and otherwise unbounded.
\<close>

definition max_int64 :: int where
  "max_int64 = 9223372036854775807"

definition get_by_pk_or_404 :: "('a \<Rightarrow> nat) \<Rightarrow> nat \<Rightarrow> 'a list \<Rightarrow> error + 'a" where
  "get_by_pk_or_404 pk k rows =
     (if max_int64 < int k then Inl OverflowError
      else get_object_or_404 (\<lambda>r. pk r = k) rows)"

text \<open>
  \<^verbatim>\<open>request.user\<close>: \<open>None\<close> is \<^verbatim>\<open>AnonymousUser\<close>, whose \<^verbatim>\<open>pk\<close> is
  \<^verbatim>\<open>None\<close>, whose \<^verbatim>\<open>username\<close> is the empty string and which is equal to
  no model instance and not to \<^verbatim>\<open>None\<close>.
\<close>

type_synonym request_user = "User option"

definition is_authenticated :: "request_user \<Rightarrow> bool" where
  "is_authenticated u = (u \<noteq> None)"

definition request_username :: "request_user \<Rightarrow> string" where
  "request_username u = (case u of None \<Rightarrow> [] | Some usr \<Rightarrow> username usr)"

definition request_pk :: "request_user \<Rightarrow> nat option" where
  "request_pk u = map_option user_id u"

text \<open>
  \<^verbatim>\<open>obj.author == request.user\<close>, where \<^verbatim>\<open>obj.author\<close> is the related
  \<^verbatim>\<open>User\<close> or \<^verbatim>\<open>None\<close>: model instances are equal when their primary keys
  are; \<^verbatim>\<open>None == AnonymousUser()\<close> is false.
\<close>

definition author_eq :: "nat option \<Rightarrow> request_user \<Rightarrow> bool" where
  "author_eq a u =
     (case u of
        None \<Rightarrow> False
      | Some usr \<Rightarrow> a = Some (user_id usr))"

text \<open>
  Joins along a foreign key. A NULL reference joins to nothing; primary keys
  are unique, so a non-NULL reference joins to the row with that key.
\<close>

definition category_of :: "DB \<Rightarrow> Post \<Rightarrow> Category option" where
  "category_of db p =
     (case post_category p of
        None \<Rightarrow> None
      | Some cid \<Rightarrow> find (\<lambda>c. category_id c = cid) (categories db))"

definition author_of :: "DB \<Rightarrow> Post \<Rightarrow> User option" where
  "author_of db p =
     (case post_author p of
        None \<Rightarrow> None
      | Some uid \<Rightarrow> find (\<lambda>u. user_id u = uid) (users db))"

text \<open>\<^verbatim>\<open>category__is_published=True\<close>, \<^verbatim>\<open>category__slug=s\<close>, \<^verbatim>\<open>author__username=n\<close>.\<close>

definition category__is_published :: "DB \<Rightarrow> Post \<Rightarrow> bool" where
  "category__is_published db p =
     (case category_of db p of None \<Rightarrow> False | Some c \<Rightarrow> category_is_published c)"

definition category__slug :: "DB \<Rightarrow> string \<Rightarrow> Post \<Rightarrow> bool" where
  "category__slug db s p =
     (case category_of db p of None \<Rightarrow> False | Some c \<Rightarrow> category_slug c = s)"

definition author__username :: "DB \<Rightarrow> string \<Rightarrow> Post \<Rightarrow> bool" where
  "author__username db n p =
     (case author_of db p of None \<Rightarrow> False | Some u \<Rightarrow> username u = n)"

text \<open>
  \<^verbatim>\<open>order_by('-pub_date')\<close> and \<^verbatim>\<open>ordering = ('created_at',)\<close>. SQL leaves
  the order of rows with equal keys open; the model keeps them in table order.
\<close>

definition order_by_desc :: "('a \<Rightarrow> int) \<Rightarrow> 'a list \<Rightarrow> 'a list" where
  "order_by_desc f rows = sort_key (\<lambda>x. - f x) rows"

definition order_by_asc :: "('a \<Rightarrow> int) \<Rightarrow> 'a list \<Rightarrow> 'a list" where
  "order_by_asc f rows = sort_key f rows"

text \<open>
  \<^verbatim>\<open>annotate(comment_count=Count('comments'))\<close>: each post row paired with
  the number of comments whose \<^verbatim>\<open>post\<close> references it.
\<close>

type_synonym annotated_post = "Post \<times> nat"

definition Count_comments :: "DB \<Rightarrow> Post \<Rightarrow> nat" where
  "Count_comments db p = length (filter (\<lambda>c. comment_post c = post_id p) (comments db))"

definition annotate :: "DB \<Rightarrow> Post list \<Rightarrow> annotated_post list" where
  "annotate db rows = map (\<lambda>p. (p, Count_comments db p)) rows"

section \<open>PostManager (blog/managers.py)\<close>

text \<open>
  The keyword arguments \<^verbatim>\<open>is_published=True, category__is_published=True,
  pub_date__lt=timezone.now()\<close>, passed to \<^verbatim>\<open>filter\<close> in
  \<^verbatim>\<open>PostManager.get_queryset\<close> and again in \<^verbatim>\<open>ProfileListView.get_queryset\<close>;
  \<^verbatim>\<open>pub_date__lt\<close> is strictly-less-than.
\<close>

definition public_filter :: "DB \<Rightarrow> datetime \<Rightarrow> Post \<Rightarrow> bool" where
  "public_filter db now p =
     (post_is_published p \<and> category__is_published db p \<and> pub_date p < now)"

definition PostManager_get_queryset :: "DB \<Rightarrow> datetime \<Rightarrow> annotated_post list" where
  "PostManager_get_queryset db now =
     annotate db (order_by_desc pub_date (filter (public_filter db now) (posts db)))"

text \<open>
  \<^verbatim>\<open>Post.objects\<close> is declared before \<^verbatim>\<open>Post.manager\<close>, so the plain
  manager is the model's default manager: \<^verbatim>\<open>get_object_or_404(Post, ...)\<close>
  and the generic views with \<^verbatim>\<open>model = Post\<close> read the unfiltered table.
\<close>

definition Post_objects_get :: "DB \<Rightarrow> nat \<Rightarrow> error + Post" where
  "Post_objects_get db pid = get_by_pk_or_404 post_id pid (posts db)"

definition Comment_objects_get :: "DB \<Rightarrow> nat \<Rightarrow> error + Comment" where
  "Comment_objects_get db cid = get_by_pk_or_404 comment_id cid (comments db)"

text \<open>
  The reverse relation \<^verbatim>\<open>post.comments\<close> (\<^verbatim>\<open>related_name='comments'\<close>), in
  the default ordering of \<^verbatim>\<open>Comment.Meta\<close>.
\<close>

definition post_comments :: "DB \<Rightarrow> Post \<Rightarrow> Comment list" where
  "post_comments db p =
     order_by_asc comment_created_at
       (filter (\<lambda>c. comment_post c = post_id p) (comments db))"

section \<open>Forms (blog/forms.py)\<close>

text \<open>
  A \<^verbatim>\<open>ModelForm\<close> builds one form field per model field. For a
  \<^verbatim>\<open>CharField\<close> or \<^verbatim>\<open>TextField\<close> that is a \<^verbatim>\<open>forms.CharField\<close>
  carrying the model field's \<^verbatim>\<open>max_length\<close>; it strips the submitted value
  (\<^verbatim>\<open>str.strip()\<close>), rejects an empty result when the field is required, and
  then runs its validators (maximum length, no null characters) on the
  stripped value.
\<close>

definition py_isspace :: "char \<Rightarrow> bool" where
  "py_isspace c = (of_char c \<in> {9, 10, 11, 12, 13, 28, 29, 30, 31, 32, 133, 160 :: nat})"

definition strip :: "string \<Rightarrow> string" where
  "strip s = rev (dropWhile py_isspace (rev (dropWhile py_isspace s)))"

datatype field_error = required | max_length | null_characters_not_allowed | invalid_choice

type_synonym form_errors = "(string \<times> field_error) list"

definition CharField_clean :: "string \<Rightarrow> nat option \<Rightarrow> string \<Rightarrow> form_errors" where
  "CharField_clean name maxlen v =
     (if v = [] then [(name, required)]
      else (case maxlen of
              None \<Rightarrow> []
            | Some n \<Rightarrow> if length v > n then [(name, max_length)] else [])
           @ (if CHR 0x00 \<in> set v then [(name, null_characters_not_allowed)] else []))"

text \<open>
  \<^verbatim>\<open>CommentForm\<close>: \<^verbatim>\<open>fields = ('text',)\<close>;
  \<^verbatim>\<open>Comment.text = models.TextField('...', max_length=120)\<close>. The result is
  the cleaned text, or the form's errors.
\<close>

definition CommentForm_clean :: "string \<Rightarrow> form_errors + string" where
  "CommentForm_clean data =
     (let text = strip data;
          errors = CharField_clean ''text'' (Some 120) text
      in if errors = [] then Inr text else Inl errors)"

text \<open>
  \<^verbatim>\<open>PostForm\<close>: every editable field of \<^verbatim>\<open>Post\<close> except \<^verbatim>\<open>author\<close> and
  \<^verbatim>\<open>is_published\<close>. \<^verbatim>\<open>pub_date\<close> is the parsed date (\<open>None\<close> when
  nothing was submitted); \<^verbatim>\<open>category\<close> and \<^verbatim>\<open>location\<close> are the chosen
  primary keys (\<open>None\<close> for the empty choice); \<^verbatim>\<open>image\<close> is the stored
  name of an uploaded file, \<open>None\<close> when no file was uploaded.
\<close>

record PostFormData =
  form_title :: string
  form_text :: string
  form_pub_date :: "datetime option"
  form_category :: "nat option"
  form_location :: "nat option"
  form_image :: "string option"

text \<open>
  A \<^verbatim>\<open>ModelChoiceField\<close> looks the chosen key up in the table; a missing
  row is an invalid choice, a key beyond the integer range raises
  \<^verbatim>\<open>OverflowError\<close> out of the form.
\<close>

definition ModelChoiceField_clean :: "string \<Rightarrow> bool \<Rightarrow> nat list \<Rightarrow> nat option \<Rightarrow> error + form_errors" where
  "ModelChoiceField_clean name is_required pks v =
     (case v of
        None \<Rightarrow> Inr (if is_required then [(name, required)] else [])
      | Some pk \<Rightarrow>
          if max_int64 < int pk then Inl OverflowError
          else Inr (if pk \<in> set pks then [] else [(name, invalid_choice)]))"

record PostFormCleaned =
  cleaned_title :: string
  cleaned_text :: string
  cleaned_pub_date :: datetime
  cleaned_category :: "nat option"
  cleaned_location :: "nat option"
  cleaned_image :: "string option"

definition PostForm_clean :: "DB \<Rightarrow> PostFormData \<Rightarrow> error + (form_errors + PostFormCleaned)" where
  "PostForm_clean db data =
     (case ModelChoiceField_clean ''category'' True
             (map category_id (categories db)) (form_category data) of
        Inl e \<Rightarrow> Inl e
      | Inr category_errors \<Rightarrow>
     (case ModelChoiceField_clean ''location'' False
             (map location_id (locations db)) (form_location data) of
        Inl e \<Rightarrow> Inl e
      | Inr location_errors \<Rightarrow>
          (let title = strip (form_title data);
               text = strip (form_text data);
               errors =
                 CharField_clean ''title'' (Some 256) title
                 @ CharField_clean ''text'' None text
                 @ (if form_pub_date data = None then [(''pub_date'', required)] else [])
                 @ category_errors @ location_errors
           in case form_pub_date data of
                None \<Rightarrow> Inr (Inl errors)
              | Some d \<Rightarrow>
                  if errors = []
                  then Inr (Inr \<lparr>cleaned_title = title, cleaned_text = text,
                                  cleaned_pub_date = d,
                                  cleaned_category = form_category data,
                                  cleaned_location = form_location data,
                                  cleaned_image = form_image data\<rparr>)
                  else Inr (Inl errors))))"

text \<open>
  \<^verbatim>\<open>form.save()\<close> writes the cleaned fields into the instance; the fields
  the form excludes keep the instance's values. Without an upload the image
  keeps its value.
\<close>

definition PostForm_save :: "PostFormCleaned \<Rightarrow> Post \<Rightarrow> Post" where
  "PostForm_save cleaned instance =
     instance\<lparr>post_title := cleaned_title cleaned,
               post_text := cleaned_text cleaned,
               pub_date := cleaned_pub_date cleaned,
               post_category := cleaned_category cleaned,
               post_location := cleaned_location cleaned,
               post_image := (case cleaned_image cleaned of
                                None \<Rightarrow> post_image instance
                              | Some name \<Rightarrow> name)\<rparr>"

section \<open>Requests and responses\<close>

datatype 'f http_method = GET | POST 'f

record 'f Request =
  request_user :: request_user
  request_method :: "'f http_method"

text \<open>The named URLs the views reverse, and the login page of the auth framework.\<close>

datatype url = Url_post_detail nat | Url_profile string | Url_login

datatype template_context =
    Context_list "annotated_post list"
  | Context_category "annotated_post list" Category
  | Context_profile "annotated_post list" User
  | Context_detail Post "Comment list"
  | Context_form form_errors

datatype response = HttpResponseRedirect url | TemplateResponse string template_context

text \<open>A read-only view returns a response; a view that can write returns the database too.\<close>

type_synonym result = "error + response \<times> DB"

type_synonym 'f handler = "DB \<Rightarrow> 'f Request \<Rightarrow> result"

text \<open>
  The paginator of \<^verbatim>\<open>ListView\<close> (\<^verbatim>\<open>paginate_by\<close>, no orphans, empty
  first page allowed). \<open>page\<close> is the requested page number, 1 when the
  request names none. A page size of 0 switches pagination off.
\<close>

definition num_pages :: "nat \<Rightarrow> nat \<Rightarrow> nat" where
  "num_pages per_page n = (max 1 n + per_page - 1) div per_page"

definition paginate_queryset :: "nat \<Rightarrow> int \<Rightarrow> 'a list \<Rightarrow> error + 'a list" where
  "paginate_queryset page_size page object_list =
     (if page_size = 0 then Inr object_list
      else if page < 1 \<or> int (num_pages page_size (length object_list)) < page
        then Inl Http404
      else Inr (take page_size (drop ((nat page - 1) * page_size) object_list)))"

text \<open>
  \<^verbatim>\<open>LoginRequiredMixin.dispatch\<close>: an unauthenticated request is redirected
  to the login page, any other goes on to the next \<^verbatim>\<open>dispatch\<close> in the
  method resolution order.
\<close>

definition LoginRequiredMixin_dispatch :: "'f handler \<Rightarrow> 'f handler" where
  "LoginRequiredMixin_dispatch super db request =
     (if \<not> is_authenticated (request_user request)
      then Inr (HttpResponseRedirect Url_login, db)
      else super db request)"

text \<open>
  The primary key of a new row: one more than the largest key the table has
  ever held (\<open>seq\<close>, and the keys \<open>pks\<close> now present), so the key of a
  deleted row is not given out again. When the keys are used up the insert
  fails with \<^verbatim>\<open>OperationalError\<close>.
\<close>

definition next_pk :: "nat \<Rightarrow> nat list \<Rightarrow> error + nat" where
  "next_pk seq pks =
     (let k = Suc (max seq (fold max pks 0))
      in if max_int64 < int k then Inl OperationalError else Inr k)"

section \<open>Views (blog/views.py)\<close>

text \<open>
  Each view is a function of the URL keyword arguments, the database and the
  request; views that read the clock take the time of the request. A
  \<^verbatim>\<open>dispatch\<close> that calls \<^verbatim>\<open>super().dispatch\<close> takes the next
  \<^verbatim>\<open>dispatch\<close> of the method resolution order as \<open>super\<close>, so a view
  class is the composition of its bases in the order the class lists them.
  Requests are GET or POST.
\<close>

subsection \<open>Mixins\<close>

definition PostReverseMixin_get_success_url :: "nat \<Rightarrow> url" where
  "PostReverseMixin_get_success_url pid = Url_post_detail pid"

text \<open>\<^verbatim>\<open>args=[self.request.user]\<close>: the user is written into the URL by its string form.\<close>

definition ProfileReverseMixin_get_success_url :: "request_user \<Rightarrow> url" where
  "ProfileReverseMixin_get_success_url u =
     Url_profile (case u of None \<Rightarrow> ''AnonymousUser'' | Some usr \<Rightarrow> username usr)"

definition PostMixin_dispatch :: "nat \<Rightarrow> 'f handler \<Rightarrow> 'f handler" where
  "PostMixin_dispatch pid super db request =
     (case Post_objects_get db pid of
        Inl e \<Rightarrow> Inl e
      | Inr post \<Rightarrow>
          if \<not> author_eq (post_author post) (request_user request)
          then Inr (HttpResponseRedirect (Url_post_detail pid), db)
          else super db request)"

text \<open>
  \<open>cid\<close> is \<^verbatim>\<open>kwargs['comment_id']\<close> and \<open>pid\<close> is
  \<^verbatim>\<open>self.kwargs['post_id']\<close>, both taken from the URL.
\<close>

definition CommentMixin_dispatch :: "nat \<Rightarrow> nat \<Rightarrow> 'f handler \<Rightarrow> 'f handler" where
  "CommentMixin_dispatch pid cid super db request =
     (case Comment_objects_get db cid of
        Inl e \<Rightarrow> Inl e
      | Inr comment \<Rightarrow>
          if \<not> author_eq (Some (comment_author comment)) (request_user request)
          then Inr (HttpResponseRedirect (Url_post_detail pid), db)
          else super db request)"

subsection \<open>Read-only views\<close>

text \<open>
  \<^verbatim>\<open>IndexListView.queryset = Post.manager.all()\<close> is a class attribute: the
  call runs once, when the class body is executed, and
  \<^verbatim>\<open>timezone.now()\<close> is evaluated then. The query set is lazy, so the rows
  are read at each request, but the bound of the date filter stays
  \<open>t_import\<close>, the time the module was loaded.
  \<open>NUMBER_OF_PUBLICATIONS\<close> is defined in blog/constants.py, which is
  not part of the source at hand; it is a parameter of the list views.
\<close>

definition IndexListView :: "nat \<Rightarrow> datetime \<Rightarrow> DB \<Rightarrow> int \<Rightarrow> error + response" where
  "IndexListView NUMBER_OF_PUBLICATIONS t_import db page =
     (case paginate_queryset NUMBER_OF_PUBLICATIONS page (PostManager_get_queryset db t_import) of
        Inl e \<Rightarrow> Inl e
      | Inr page_obj \<Rightarrow> Inr (TemplateResponse ''blog/index.html'' (Context_list page_obj)))"

definition PostDetailView_get_context_data :: "DB \<Rightarrow> Post \<Rightarrow> template_context" where
  "PostDetailView_get_context_data db object = Context_detail object (post_comments db object)"

definition DetailView_get :: "DB \<Rightarrow> nat \<Rightarrow> error + response" where
  "DetailView_get db pid =
     (case Post_objects_get db pid of
        Inl e \<Rightarrow> Inl e
      | Inr object \<Rightarrow>
          Inr (TemplateResponse ''blog/detail.html'' (PostDetailView_get_context_data db object)))"

text \<open>
  \<^verbatim>\<open>post.category\<close> is \<^verbatim>\<open>None\<close> for a NULL reference, and reading
  \<^verbatim>\<open>is_published\<close> from \<^verbatim>\<open>None\<close> raises \<^verbatim>\<open>AttributeError\<close>. The
  conditions are evaluated left to right and stop at the first that decides.
\<close>

definition PostDetailView_dispatch :: "DB \<Rightarrow> datetime \<Rightarrow> request_user \<Rightarrow> nat \<Rightarrow> error + response" where
  "PostDetailView_dispatch db now user pid =
     (case Post_objects_get db pid of
        Inl e \<Rightarrow> Inl e
      | Inr post \<Rightarrow>
          if author_eq (post_author post) user then DetailView_get db pid
          else if \<not> post_is_published post then Inl Http404
          else if \<not> pub_date post \<le> now then Inl Http404
          else (case post_category post of
                  None \<Rightarrow> Inl AttributeError
                | Some c \<Rightarrow>
                    (case queryset_get (\<lambda>r. category_id r = c) (categories db) of
                       Inl e \<Rightarrow> Inl e
                     | Inr category \<Rightarrow>
                         if category_is_published category then DetailView_get db pid
                         else Inl Http404)))"

definition CategoryPostsListView_get_queryset :: "DB \<Rightarrow> datetime \<Rightarrow> string \<Rightarrow> annotated_post list" where
  "CategoryPostsListView_get_queryset db now slug =
     filter (\<lambda>(p, n). category__slug db slug p) (PostManager_get_queryset db now)"

definition CategoryPostsListView :: "nat \<Rightarrow> DB \<Rightarrow> datetime \<Rightarrow> string \<Rightarrow> int \<Rightarrow> error + response" where
  "CategoryPostsListView NUMBER_OF_PUBLICATIONS db now slug page =
     (case paginate_queryset NUMBER_OF_PUBLICATIONS page
             (CategoryPostsListView_get_queryset db now slug) of
        Inl e \<Rightarrow> Inl e
      | Inr page_obj \<Rightarrow>
          (case get_object_or_404
                  (\<lambda>c. category_slug c = slug \<and> category_is_published c) (categories db) of
             Inl e \<Rightarrow> Inl e
           | Inr category \<Rightarrow>
               Inr (TemplateResponse ''blog/category.html'' (Context_category page_obj category))))"

definition ProfileListView_get_queryset :: "DB \<Rightarrow> datetime \<Rightarrow> request_user \<Rightarrow> string \<Rightarrow> annotated_post list" where
  "ProfileListView_get_queryset db now user uname =
     (let posts = annotate db (order_by_desc pub_date
                    (filter (author__username db uname) (posts db)))
      in if request_username user \<noteq> uname
         then filter (\<lambda>(p, n). public_filter db now p) posts
         else posts)"

definition ProfileListView :: "nat \<Rightarrow> DB \<Rightarrow> datetime \<Rightarrow> request_user \<Rightarrow> string \<Rightarrow> int \<Rightarrow> error + response" where
  "ProfileListView NUMBER_OF_PUBLICATIONS db now user uname page =
     (case paginate_queryset NUMBER_OF_PUBLICATIONS page
             (ProfileListView_get_queryset db now user uname) of
        Inl e \<Rightarrow> Inl e
      | Inr page_obj \<Rightarrow>
          (case get_object_or_404 (\<lambda>u. username u = uname) (users db) of
             Inl e \<Rightarrow> Inl e
           | Inr profile \<Rightarrow>
               Inr (TemplateResponse ''blog/profile.html'' (Context_profile page_obj profile))))"

subsection \<open>Generic editing views\<close>

text \<open>
  What \<^verbatim>\<open>UpdateView\<close>, \<^verbatim>\<open>DeleteView\<close> and \<^verbatim>\<open>CreateView\<close> do once
  \<^verbatim>\<open>dispatch\<close> reaches them: \<^verbatim>\<open>get_object\<close> by the primary key of the
  URL, then on GET the form page, on POST the validated write and a redirect
  to the success URL, or the form page with its errors. \<^verbatim>\<open>DeleteView\<close>
  deletes on every POST, as it does up to Django 3.2; no property below
  depends on what a POST of the author does.
\<close>

definition Post_UpdateView :: "nat \<Rightarrow> PostFormData handler" where
  "Post_UpdateView pid db request =
     (case Post_objects_get db pid of
        Inl e \<Rightarrow> Inl e
      | Inr object \<Rightarrow>
          (case request_method request of
             GET \<Rightarrow> Inr (TemplateResponse ''blog/create.html'' (Context_form []), db)
           | POST data \<Rightarrow>
               (case PostForm_clean db data of
                  Inl e \<Rightarrow> Inl e
                | Inr (Inl errors) \<Rightarrow>
                    Inr (TemplateResponse ''blog/create.html'' (Context_form errors), db)
                | Inr (Inr cleaned) \<Rightarrow>
                    Inr (HttpResponseRedirect (PostReverseMixin_get_success_url pid),
                         db\<lparr>posts := map (\<lambda>p. if post_id p = pid
                                                then PostForm_save cleaned object else p)
                                           (posts db)\<rparr>))))"

text \<open>Deleting a post deletes its comments (\<^verbatim>\<open>on_delete=models.CASCADE\<close>).\<close>

definition Post_DeleteView :: "nat \<Rightarrow> 'f handler" where
  "Post_DeleteView pid db request =
     (case Post_objects_get db pid of
        Inl e \<Rightarrow> Inl e
      | Inr object \<Rightarrow>
          (case request_method request of
             GET \<Rightarrow> Inr (TemplateResponse ''blog/create.html'' (Context_form []), db)
           | POST data \<Rightarrow>
               Inr (HttpResponseRedirect
                      (ProfileReverseMixin_get_success_url (request_user request)),
                    db\<lparr>posts := filter (\<lambda>p. post_id p \<noteq> pid) (posts db),
                       comments := filter (\<lambda>c. comment_post c \<noteq> pid) (comments db)\<rparr>)))"

definition Comment_UpdateView :: "nat \<Rightarrow> nat \<Rightarrow> string handler" where
  "Comment_UpdateView pid cid db request =
     (case Comment_objects_get db cid of
        Inl e \<Rightarrow> Inl e
      | Inr object \<Rightarrow>
          (case request_method request of
             GET \<Rightarrow> Inr (TemplateResponse ''blog/comment.html'' (Context_form []), db)
           | POST data \<Rightarrow>
               (case CommentForm_clean data of
                  Inl errors \<Rightarrow>
                    Inr (TemplateResponse ''blog/comment.html'' (Context_form errors), db)
                | Inr text \<Rightarrow>
                    Inr (HttpResponseRedirect (PostReverseMixin_get_success_url pid),
                         db\<lparr>comments := map (\<lambda>c. if comment_id c = cid
                                                   then object\<lparr>comment_text := text\<rparr> else c)
                                              (comments db)\<rparr>))))"

definition Comment_DeleteView :: "nat \<Rightarrow> nat \<Rightarrow> 'f handler" where
  "Comment_DeleteView pid cid db request =
     (case Comment_objects_get db cid of
        Inl e \<Rightarrow> Inl e
      | Inr object \<Rightarrow>
          (case request_method request of
             GET \<Rightarrow> Inr (TemplateResponse ''blog/comment.html'' (Context_form []), db)
           | POST data \<Rightarrow>
               Inr (HttpResponseRedirect (PostReverseMixin_get_success_url pid),
                    db\<lparr>comments := filter (\<lambda>c. comment_id c \<noteq> cid) (comments db)\<rparr>)))"

subsection \<open>The editing views of the application\<close>

text \<open>
  \<^verbatim>\<open>class PostUpdateView(PostMixin, PostReverseMixin, LoginRequiredMixin, UpdateView)\<close>
  and its three siblings: \<^verbatim>\<open>dispatch\<close> of the first base runs first.
\<close>

definition PostUpdateView :: "nat \<Rightarrow> PostFormData handler" where
  "PostUpdateView pid =
     PostMixin_dispatch pid (LoginRequiredMixin_dispatch (Post_UpdateView pid))"

definition PostDeleteView :: "nat \<Rightarrow> 'f handler" where
  "PostDeleteView pid =
     PostMixin_dispatch pid (LoginRequiredMixin_dispatch (Post_DeleteView pid))"

definition CommentUpdateView :: "nat \<Rightarrow> nat \<Rightarrow> string handler" where
  "CommentUpdateView pid cid =
     CommentMixin_dispatch pid cid (LoginRequiredMixin_dispatch (Comment_UpdateView pid cid))"

definition CommentDeleteView :: "nat \<Rightarrow> nat \<Rightarrow> 'f handler" where
  "CommentDeleteView pid cid =
     CommentMixin_dispatch pid cid (LoginRequiredMixin_dispatch (Comment_DeleteView pid cid))"

text \<open>
  \<^verbatim>\<open>PostCreateView.form_valid\<close> sets the author and saves. The fields the
  form leaves out take their defaults: \<open>is_published_default\<close> stands for
  the default of \<^verbatim>\<open>PublishedModel.is_published\<close>, declared in core/models.py,
  which is not part of the source at hand; \<^verbatim>\<open>created_at\<close> of the same
  module is taken to be the time of creation. Assigning \<^verbatim>\<open>AnonymousUser\<close> to the
  author raises \<^verbatim>\<open>ValueError\<close>.
\<close>

definition PostCreateView_form_valid :: "bool \<Rightarrow> datetime \<Rightarrow> PostFormCleaned \<Rightarrow> PostFormData handler" where
  "PostCreateView_form_valid is_published_default now cleaned db request =
     (case request_user request of
        None \<Rightarrow> Inl ValueError
      | Some usr \<Rightarrow>
          (case next_pk (posts_seq db) (map post_id (posts db)) of
             Inl e \<Rightarrow> Inl e
           | Inr k \<Rightarrow>
               Inr (HttpResponseRedirect
                      (ProfileReverseMixin_get_success_url (request_user request)),
                    db\<lparr>posts := posts db @
                       [PostForm_save cleaned
                          \<lparr>post_id = k,
                           post_title = [], post_text = [], pub_date = 0,
                           post_author = Some (user_id usr),
                           post_category = None, post_location = None, post_image = [],
                           post_is_published = is_published_default,
                           post_created_at = now\<rparr>],
                       posts_seq := k\<rparr>)))"

definition PostCreateView :: "bool \<Rightarrow> datetime \<Rightarrow> PostFormData handler" where
  "PostCreateView is_published_default now =
     LoginRequiredMixin_dispatch
       (\<lambda>db request.
          case request_method request of
            GET \<Rightarrow> Inr (TemplateResponse ''blog/create.html'' (Context_form []), db)
          | POST data \<Rightarrow>
              (case PostForm_clean db data of
                 Inl e \<Rightarrow> Inl e
               | Inr (Inl errors) \<Rightarrow>
                   Inr (TemplateResponse ''blog/create.html'' (Context_form errors), db)
               | Inr (Inr cleaned) \<Rightarrow>
                   PostCreateView_form_valid is_published_default now cleaned db request))"

text \<open>
  \<^verbatim>\<open>CommentCreateView\<close>: \<^verbatim>\<open>dispatch\<close> fetches the post of the URL and
  keeps it in \<^verbatim>\<open>self.comment\<close>; \<^verbatim>\<open>form_valid\<close> sets author and post.
  \<^verbatim>\<open>created_at\<close> is \<^verbatim>\<open>auto_now_add\<close>. The view names no template, so
  the default name for the model is used.
\<close>

definition CommentCreateView_form_valid :: "nat \<Rightarrow> datetime \<Rightarrow> Post \<Rightarrow> string \<Rightarrow> string handler" where
  "CommentCreateView_form_valid pid now post text db request =
     (case request_user request of
        None \<Rightarrow> Inl ValueError
      | Some usr \<Rightarrow>
          (case next_pk (comments_seq db) (map comment_id (comments db)) of
             Inl e \<Rightarrow> Inl e
           | Inr k \<Rightarrow>
               Inr (HttpResponseRedirect (PostReverseMixin_get_success_url pid),
                    db\<lparr>comments := comments db @
                       [\<lparr>comment_id = k,
                         comment_text = text,
                         comment_post = post_id post,
                         comment_created_at = now,
                         comment_author = user_id usr\<rparr>],
                       comments_seq := k\<rparr>)))"

definition CommentCreateView :: "nat \<Rightarrow> datetime \<Rightarrow> string handler" where
  "CommentCreateView pid now db request =
     (case Post_objects_get db pid of
        Inl e \<Rightarrow> Inl e
      | Inr post \<Rightarrow>
          LoginRequiredMixin_dispatch
            (\<lambda>db request.
               case request_method request of
                 GET \<Rightarrow> Inr (TemplateResponse ''blog/comment_form.html'' (Context_form []), db)
               | POST data \<Rightarrow>
                   (case CommentForm_clean data of
                      Inl errors \<Rightarrow>
                        Inr (TemplateResponse ''blog/comment_form.html'' (Context_form errors), db)
                    | Inr text \<Rightarrow> CommentCreateView_form_valid pid now post text db request))
            db request)"

text \<open>
  \<^verbatim>\<open>ProfileUpdateView\<close>: \<^verbatim>\<open>dispatch\<close> looks the requesting user up by
  \<^verbatim>\<open>request.user.pk\<close> before \<^verbatim>\<open>LoginRequiredMixin\<close> runs; for
  \<^verbatim>\<open>AnonymousUser\<close> the key is \<^verbatim>\<open>None\<close> and \<^verbatim>\<open>id=None\<close> matches no
  row. The user model comes from the project settings, so the validation of
  \<^verbatim>\<open>UserForm\<close> is a parameter: from the instance and the submitted data it
  gives the errors or the instance to save.
\<close>

definition ProfileUpdateView :: "(DB \<Rightarrow> User \<Rightarrow> 'f \<Rightarrow> form_errors + User) \<Rightarrow> 'f handler" where
  "ProfileUpdateView UserForm_clean db request =
     (case (case request_pk (request_user request) of
              None \<Rightarrow> Inl Http404
            | Some k \<Rightarrow> get_by_pk_or_404 user_id k (users db)) of
        Inl e \<Rightarrow> Inl e
      | Inr found \<Rightarrow>
          LoginRequiredMixin_dispatch
            (\<lambda>db request.
               case request_user request of
                 None \<Rightarrow> Inl AttributeError
               | Some object \<Rightarrow>
                   (case request_method request of
                      GET \<Rightarrow> Inr (TemplateResponse ''blog/user.html'' (Context_form []), db)
                    | POST data \<Rightarrow>
                        (case UserForm_clean db object data of
                           Inl errors \<Rightarrow>
                             Inr (TemplateResponse ''blog/user.html'' (Context_form errors), db)
                         | Inr saved \<Rightarrow>
                             Inr (HttpResponseRedirect
                                    (ProfileReverseMixin_get_success_url (Some saved)),
                                  db\<lparr>users := map (\<lambda>u. if user_id u = user_id object
                                                         then saved else u)
                                                    (users db)\<rparr>))))
            db request)"

section \<open>Example data\<close>

text \<open>
  A small database on which the views are evaluated: two users, a published
  and an unpublished category, five posts of every kind of visibility, three
  comments.
\<close>

definition alice :: User where
  "alice = \<lparr>user_id = 1, username = ''alice'', first_name = ''Alice'', last_name = [],
            email = []\<rparr>"

definition bob :: User where
  "bob = \<lparr>user_id = 2, username = ''bob'', first_name = ''Bob'', last_name = [],
          email = []\<rparr>"

definition travel :: Category where
  "travel = \<lparr>category_id = 1, category_title = ''Travel'', category_description = [],
             category_slug = ''travel'', category_is_published = True,
             category_created_at = 0\<rparr>"

definition drafts :: Category where
  "drafts = \<lparr>category_id = 2, category_title = ''Drafts'', category_description = [],
             category_slug = ''drafts'', category_is_published = False,
             category_created_at = 0\<rparr>"

definition mk_post :: "nat \<Rightarrow> datetime \<Rightarrow> nat \<Rightarrow> nat option \<Rightarrow> bool \<Rightarrow> Post" where
  "mk_post i d a c pub =
     \<lparr>post_id = i, post_title = ''t'', post_text = ''x'', pub_date = d,
      post_author = Some a, post_category = c, post_location = None, post_image = [],
      post_is_published = pub, post_created_at = 0\<rparr>"

definition mk_comment :: "nat \<Rightarrow> nat \<Rightarrow> datetime \<Rightarrow> nat \<Rightarrow> Comment" where
  "mk_comment i p d a =
     \<lparr>comment_id = i, comment_text = ''hi'', comment_post = p, comment_created_at = d,
      comment_author = a\<rparr>"

definition demo_db :: DB where
  "demo_db =
     \<lparr>users = [alice, bob],
      categories = [travel, drafts],
      locations = [],
      posts = [mk_post 1 100 1 (Some 1) True,
               mk_post 2 50 1 (Some 1) True,
               mk_post 3 70 1 None True,
               mk_post 4 10 1 (Some 1) False,
               mk_post 5 20 2 (Some 2) True],
      comments = [mk_comment 1 2 60 2, mk_comment 2 2 55 1, mk_comment 3 1 101 2],
      posts_seq = 5,
      comments_seq = 3\<rparr>"

definition lisbon :: Location where
  "lisbon = \<lparr>location_id = 1, location_name = ''Lisbon'', location_is_published = True,
             location_created_at = 0\<rparr>"

text \<open>The same database with a location to choose.\<close>

definition demo_db_located :: DB where
  "demo_db_located = demo_db\<lparr>locations := [lisbon]\<rparr>"

text \<open>The same database after the second category has been published.\<close>

definition demo_db_open :: DB where
  "demo_db_open = demo_db\<lparr>categories := [travel, drafts\<lparr>category_is_published := True\<rparr>]\<rparr>"

section \<open>Facts about the framework primitives\<close>


lemma get_object_or_404_Http404:
  "(get_object_or_404 P rows = Inl Http404) = (filter P rows = [])"
  by (auto simp: get_object_or_404_def queryset_get_def split: list.splits error.splits sum.splits)

lemma get_object_or_404_Inr_iff:
  "(get_object_or_404 P rows = Inr x) = (filter P rows = [x])"
  by (auto simp: get_object_or_404_def queryset_get_def split: list.splits error.splits sum.splits)

lemma filter_singletonD: "filter P rows = [x] \<Longrightarrow> P x \<and> x \<in> set rows"
  by (metis filter_eq_ConsD in_set_conv_decomp)

lemma get_by_pk_or_404_Inr_iff:
  "(get_by_pk_or_404 pk k rows = Inr x) =
     (int k \<le> max_int64 \<and> filter (\<lambda>r. pk r = k) rows = [x])"
  by (simp add: get_by_pk_or_404_def get_object_or_404_Inr_iff not_less)

lemma get_by_pk_or_404_Http404:
  "(get_by_pk_or_404 pk k rows = Inl Http404) =
     (int k \<le> max_int64 \<and> filter (\<lambda>r. pk r = k) rows = [])"
  by (simp add: get_by_pk_or_404_def get_object_or_404_Http404 not_less)

lemma get_by_pk_or_404_OverflowError:
  "max_int64 < int k \<Longrightarrow> get_by_pk_or_404 pk k rows = Inl OverflowError"
  by (simp add: get_by_pk_or_404_def)

lemma Post_objects_get_Inr:
  "Post_objects_get db pid = Inr p \<Longrightarrow> post_id p = pid \<and> p \<in> set (posts db)"
  using filter_singletonD [of "\<lambda>p. post_id p = pid" "posts db" p]
  by (simp add: Post_objects_get_def get_by_pk_or_404_Inr_iff)

lemma set_order_by_desc: "set (order_by_desc f rows) = set rows"
  by (simp add: order_by_desc_def)

lemma sorted_order_by_desc:
  "sorted_wrt (\<lambda>a b. f b \<le> f a) (order_by_desc f rows)"
proof -
  have "sorted (map (\<lambda>x. - f x) (order_by_desc f rows))"
    by (simp add: order_by_desc_def)
  then show ?thesis by (simp add: sorted_wrt_map)
qed

lemma filter_order_by_desc:
  "filter P (order_by_desc f rows) = order_by_desc f (filter P rows)"
  by (simp add: order_by_desc_def filter_sort)

lemma map_fst_annotate: "map fst (annotate db rows) = rows"
  by (simp add: annotate_def comp_def)

lemma map_snd_annotate: "map snd (annotate db rows) = map (Count_comments db) rows"
  by (simp add: annotate_def comp_def)

lemma filter_annotate:
  "filter (\<lambda>(p, n). P p) (annotate db rows) = annotate db (filter P rows)"
  by (simp add: annotate_def filter_map comp_def)

lemma map_fst_PostManager_get_queryset:
  "map fst (PostManager_get_queryset db now) =
     order_by_desc pub_date (filter (public_filter db now) (posts db))"
  by (simp add: PostManager_get_queryset_def map_fst_annotate)

lemma post_comments_sorted: "sorted (map comment_created_at (post_comments db p))"
  by (simp add: post_comments_def order_by_asc_def)

lemma post_comments_mset:
  "mset (post_comments db p) = mset (filter (\<lambda>c. comment_post c = post_id p) (comments db))"
  by (simp add: post_comments_def order_by_asc_def)

lemma DetailView_get_Inr:
  "DetailView_get db pid = Inr response \<Longrightarrow>
   \<exists>post. Post_objects_get db pid = Inr post
     \<and> response = TemplateResponse ''blog/detail.html'' (Context_detail post (post_comments db post))"
  by (auto simp: DetailView_get_def PostDetailView_get_context_data_def split: sum.splits)

lemma PostDetailView_dispatch_Inr:
  "PostDetailView_dispatch db now user pid = Inr response \<Longrightarrow>
   DetailView_get db pid = Inr response"
  by (auto simp: PostDetailView_dispatch_def split: sum.splits if_splits option.splits)

lemma Comment_objects_get_Inr:
  "Comment_objects_get db cid = Inr c \<Longrightarrow> comment_id c = cid \<and> c \<in> set (comments db)"
  using filter_singletonD [of "\<lambda>c. comment_id c = cid" "comments db" c]
  by (simp add: Comment_objects_get_def get_by_pk_or_404_Inr_iff)

lemma filter_unique:
  "distinct (map f rows) \<Longrightarrow> x \<in> set rows \<Longrightarrow> filter (\<lambda>y. f y = f x) rows = [x]"
  by (induction rows) (auto simp: filter_empty_conv image_iff)

lemma find_unique:
  "distinct (map f rows) \<Longrightarrow> x \<in> set rows \<Longrightarrow> find (\<lambda>y. f y = f x) rows = Some x"
  by (induction rows) (auto simp: image_iff)

lemma distinct_map_eqD:
  "distinct (map f rows) \<Longrightarrow> x \<in> set rows \<Longrightarrow> y \<in> set rows \<Longrightarrow> f x = f y \<Longrightarrow> x = y"
  by (meson distinct_map inj_on_def)

lemma find_SomeD: "find P rows = Some x \<Longrightarrow> P x \<and> x \<in> set rows"
  by (auto simp: find_Some_iff)

lemma num_pages_pos: "0 < per_page \<Longrightarrow> 1 \<le> num_pages per_page n"
proof -
  assume "0 < per_page"
  then have "per_page \<le> max 1 n + per_page - 1" by simp
  then have "per_page div per_page \<le> (max 1 n + per_page - 1) div per_page"
    by (rule div_le_mono)
  with \<open>0 < per_page\<close> show ?thesis by (simp add: num_pages_def)
qed

lemma paginate_queryset_first:
  "paginate_queryset page_size 1 object_list =
     Inr (if page_size = 0 then object_list else take page_size object_list)"
  using num_pages_pos [of page_size "length object_list"]
  by (cases "page_size = 0") (auto simp: paginate_queryset_def)

lemma paginate_queryset_error:
  "paginate_queryset page_size page object_list = Inl e \<Longrightarrow> e = Http404"
  by (simp add: paginate_queryset_def split: if_splits)

lemma paginate_queryset_sublist:
  "paginate_queryset page_size page object_list = Inr page_obj \<Longrightarrow>
     set page_obj \<subseteq> set object_list"
  by (auto simp: paginate_queryset_def split: if_splits dest: in_set_takeD in_set_dropD)

lemma set_PostManager_get_queryset:
  "fst ` set (PostManager_get_queryset db now) =
     {p \<in> set (posts db). post_is_published p \<and> category__is_published db p \<and> pub_date p < now}"
proof -
  have "fst ` set (PostManager_get_queryset db now) = set (map fst (PostManager_get_queryset db now))"
    by simp
  also have "\<dots> = {p \<in> set (posts db). public_filter db now p}"
    by (simp only: map_fst_PostManager_get_queryset set_order_by_desc set_filter)
  finally show ?thesis by (simp add: public_filter_def)
qed

lemma sorted_PostManager_get_queryset:
  "sorted_wrt (\<lambda>a b. pub_date b \<le> pub_date a) (map fst (PostManager_get_queryset db now))"
  by (simp only: map_fst_PostManager_get_queryset sorted_order_by_desc)

lemma snd_PostManager_get_queryset:
  "map snd (PostManager_get_queryset db now) =
     map (Count_comments db) (map fst (PostManager_get_queryset db now))"
  by (simp add: PostManager_get_queryset_def annotate_def comp_def)

section \<open>The comment thread of the detail view\<close>

text \<open>
  Claim C7. Whenever the detail view of a post answers, the comment thread in
  its context holds exactly the comments of that post, each as often as the
  table has it, in non-decreasing order of \<^verbatim>\<open>created_at\<close>.
\<close>

theorem comment_thread_sorted:
  assumes "PostDetailView_dispatch db now user pid = Inr response"
  shows "\<exists>post thread.
           response = TemplateResponse ''blog/detail.html'' (Context_detail post thread)
           \<and> Post_objects_get db pid = Inr post
           \<and> mset thread = mset (filter (\<lambda>c. comment_post c = pid) (comments db))
           \<and> sorted (map comment_created_at thread)"
proof -
  from assms have "DetailView_get db pid = Inr response"
    by (rule PostDetailView_dispatch_Inr)
  then obtain post where post: "Post_objects_get db pid = Inr post"
    and r: "response = TemplateResponse ''blog/detail.html'' (Context_detail post (post_comments db post))"
    using DetailView_get_Inr by blast
  from post have "post_id post = pid" using Post_objects_get_Inr by blast
  then have "mset (post_comments db post) = mset (filter (\<lambda>c. comment_post c = pid) (comments db))"
    using post_comments_mset [of db post] by simp
  with post r post_comments_sorted [of db post] show ?thesis by blast
qed

theorem comment_thread_sorted_witness:
  "PostDetailView_dispatch demo_db 100 None 2 =
     Inr (TemplateResponse ''blog/detail.html''
            (Context_detail (mk_post 2 50 1 (Some 1) True)
               [mk_comment 2 2 55 1, mk_comment 1 2 60 2]))
   \<and> (\<exists>post thread.
         TemplateResponse ''blog/detail.html''
            (Context_detail (mk_post 2 50 1 (Some 1) True)
               [mk_comment 2 2 55 1, mk_comment 1 2 60 2])
           = TemplateResponse ''blog/detail.html'' (Context_detail post thread)
         \<and> Post_objects_get demo_db 2 = Inr post
         \<and> mset thread = mset (filter (\<lambda>c. comment_post c = 2) (comments demo_db))
         \<and> sorted (map comment_created_at thread))"
proof -
  have h: "PostDetailView_dispatch demo_db 100 None 2 =
     Inr (TemplateResponse ''blog/detail.html''
            (Context_detail (mk_post 2 50 1 (Some 1) True)
               [mk_comment 2 2 55 1, mk_comment 1 2 60 2]))"
    by code_simp
  from comment_thread_sorted [OF h] h show ?thesis by blast
qed


section \<open>The public listing\<close>

text \<open>
  Claim C1. The claim puts a post on the public listing exactly when it is
  published, its category is published and its \<^verbatim>\<open>pub_date\<close> is at or
  before the current time. The listing takes \<^verbatim>\<open>pub_date\<close> strictly before
  the current time: a post whose \<^verbatim>\<open>pub_date\<close> is the current time meets
  the claim's three conditions and is on none of the listings (the manager's
  query set, the category feed, another user's profile, the home feed), while
  the detail view, which compares with \<open>\<le>\<close>, shows it to everyone.
\<close>

theorem post_published_now_not_listed:
  "post_is_published (mk_post 1 100 1 (Some 1) True)
   \<and> category__is_published demo_db (mk_post 1 100 1 (Some 1) True)
   \<and> pub_date (mk_post 1 100 1 (Some 1) True) \<le> 100
   \<and> mk_post 1 100 1 (Some 1) True \<in> set (posts demo_db)
   \<and> mk_post 1 100 1 (Some 1) True \<notin> fst ` set (PostManager_get_queryset demo_db 100)
   \<and> mk_post 1 100 1 (Some 1) True
        \<notin> fst ` set (CategoryPostsListView_get_queryset demo_db 100 ''travel'')
   \<and> mk_post 1 100 1 (Some 1) True
        \<notin> fst ` set (ProfileListView_get_queryset demo_db 100 (Some bob) ''alice'')
   \<and> IndexListView 10 100 demo_db 1 =
        Inr (TemplateResponse ''blog/index.html''
               (Context_list [(mk_post 2 50 1 (Some 1) True, 2)]))
   \<and> PostDetailView_dispatch demo_db 100 (Some bob) 1 =
        Inr (TemplateResponse ''blog/detail.html''
               (Context_detail (mk_post 1 100 1 (Some 1) True) [mk_comment 3 1 101 2]))"
  by code_simp

text \<open>
  The home feed reads the clock when the module is loaded, not at the request:
  loaded at time 40 and asked at time 100, it lists nothing, although post 2
  passes the filter at time 100.
\<close>

lemma IndexListView_clock_of_import:
  "public_filter demo_db 100 (mk_post 2 50 1 (Some 1) True)
   \<and> mk_post 2 50 1 (Some 1) True \<in> set (posts demo_db)
   \<and> IndexListView 10 40 demo_db 1 = Inr (TemplateResponse ''blog/index.html'' (Context_list []))"
  by code_simp

section \<open>The detail view\<close>

lemma PostDetailView_dispatch_author:
  assumes "Post_objects_get db pid = Inr p" and "author_eq (post_author p) user"
  shows "PostDetailView_dispatch db now user pid =
           Inr (TemplateResponse ''blog/detail.html'' (Context_detail p (post_comments db p)))"
  using assms
  by (simp add: PostDetailView_dispatch_def DetailView_get_def PostDetailView_get_context_data_def)

lemma PostDetailView_dispatch_hidden:
  assumes "Post_objects_get db pid = Inr p" and "\<not> author_eq (post_author p) user"
    and "\<not> post_is_published p \<or> now < pub_date p"
  shows "PostDetailView_dispatch db now user pid = Inl Http404"
  using assms by (auto simp: PostDetailView_dispatch_def)

lemma PostDetailView_dispatch_public:
  assumes "Post_objects_get db pid = Inr p" and "post_is_published p" and "pub_date p \<le> now"
    and "post_category p = Some c"
    and "queryset_get (\<lambda>r. category_id r = c) (categories db) = Inr category"
  shows "PostDetailView_dispatch db now user pid =
           (if author_eq (post_author p) user \<or> category_is_published category
            then Inr (TemplateResponse ''blog/detail.html''
                        (Context_detail p (post_comments db p)))
            else Inl Http404)"
  using assms
  by (simp add: PostDetailView_dispatch_def DetailView_get_def PostDetailView_get_context_data_def)

lemma PostDetailView_dispatch_missing:
  assumes "Post_objects_get db pid = Inl e"
  shows "PostDetailView_dispatch db now user pid = Inl e"
  using assms by (simp add: PostDetailView_dispatch_def)

text \<open>
  Claim C2. The claim lets the detail view either succeed or fail with
  NotFound, and succeed for a published post without category whose
  \<^verbatim>\<open>pub_date\<close> has passed. For such a post and a viewer who is not its
  author the view raises \<^verbatim>\<open>AttributeError\<close>: neither of the two.
\<close>

theorem detail_of_uncategorized_post_raises:
  "Post_objects_get demo_db 3 = Inr (mk_post 3 70 1 None True)
   \<and> post_is_published (mk_post 3 70 1 None True)
   \<and> post_category (mk_post 3 70 1 None True) = None
   \<and> pub_date (mk_post 3 70 1 None True) \<le> 100
   \<and> \<not> author_eq (post_author (mk_post 3 70 1 None True)) (Some bob)
   \<and> PostDetailView_dispatch demo_db 100 (Some bob) 3 = Inl AttributeError
   \<and> PostDetailView_dispatch demo_db 100 None 3 = Inl AttributeError"
  by code_simp

section \<open>The ownership guard\<close>

lemma PostMixin_dispatch_deny:
  assumes "Post_objects_get db pid = Inr post"
    and "\<not> author_eq (post_author post) (request_user request)"
  shows "PostMixin_dispatch pid super db request
           = Inr (HttpResponseRedirect (Url_post_detail pid), db)"
  using assms by (simp add: PostMixin_dispatch_def)

lemma CommentMixin_dispatch_deny:
  assumes "Comment_objects_get db cid = Inr comment"
    and "\<not> author_eq (Some (comment_author comment)) (request_user request)"
  shows "CommentMixin_dispatch pid cid super db request
           = Inr (HttpResponseRedirect (Url_post_detail pid), db)"
  using assms by (simp add: CommentMixin_dispatch_def)

text \<open>
  Claim C3, as the code has it. An update or delete of a post or comment by a
  logged-in viewer who is not the author of the target changes nothing and
  redirects to the detail view of the post named by \<^verbatim>\<open>post_id\<close> in the
  URL. For a post that is the target itself; for a comment it is whatever
  post the URL names.
\<close>

theorem non_author_soft_deny:
  fixes m1 :: "PostFormData http_method" and m2 :: "'f http_method"
    and m3 :: "string http_method" and m4 :: "'g http_method"
  shows
    "(Post_objects_get db pid = Inr post \<and> post_author post \<noteq> Some (user_id viewer) \<longrightarrow>
        post_id post = pid
        \<and> PostUpdateView pid db \<lparr>request_user = Some viewer, request_method = m1\<rparr>
            = Inr (HttpResponseRedirect (Url_post_detail pid), db)
        \<and> PostDeleteView pid db \<lparr>request_user = Some viewer, request_method = m2\<rparr>
            = Inr (HttpResponseRedirect (Url_post_detail pid), db))
     \<and> (Comment_objects_get db cid = Inr comment \<and> comment_author comment \<noteq> user_id viewer \<longrightarrow>
        comment_id comment = cid
        \<and> CommentUpdateView url_pid cid db \<lparr>request_user = Some viewer, request_method = m3\<rparr>
            = Inr (HttpResponseRedirect (Url_post_detail url_pid), db)
        \<and> CommentDeleteView url_pid cid db \<lparr>request_user = Some viewer, request_method = m4\<rparr>
            = Inr (HttpResponseRedirect (Url_post_detail url_pid), db))"
proof -
  have p: "post_id post = pid
        \<and> PostUpdateView pid db \<lparr>request_user = Some viewer, request_method = m1\<rparr>
            = Inr (HttpResponseRedirect (Url_post_detail pid), db)
        \<and> PostDeleteView pid db \<lparr>request_user = Some viewer, request_method = m2\<rparr>
            = Inr (HttpResponseRedirect (Url_post_detail pid), db)"
    if "Post_objects_get db pid = Inr post" "post_author post \<noteq> Some (user_id viewer)"
    using that Post_objects_get_Inr [OF that(1)]
    by (simp add: PostUpdateView_def PostDeleteView_def PostMixin_dispatch_deny author_eq_def)
  have c: "comment_id comment = cid
        \<and> CommentUpdateView url_pid cid db \<lparr>request_user = Some viewer, request_method = m3\<rparr>
            = Inr (HttpResponseRedirect (Url_post_detail url_pid), db)
        \<and> CommentDeleteView url_pid cid db \<lparr>request_user = Some viewer, request_method = m4\<rparr>
            = Inr (HttpResponseRedirect (Url_post_detail url_pid), db)"
    if "Comment_objects_get db cid = Inr comment" "comment_author comment \<noteq> user_id viewer"
    using that Comment_objects_get_Inr [OF that(1)]
    by (simp add: CommentUpdateView_def CommentDeleteView_def CommentMixin_dispatch_deny
        author_eq_def)
  from p c show ?thesis by blast
qed

theorem non_author_soft_deny_witness:
  "Post_objects_get demo_db 1 = Inr (mk_post 1 100 1 (Some 1) True)
   \<and> post_author (mk_post 1 100 1 (Some 1) True) \<noteq> Some (user_id bob)
   \<and> PostUpdateView 1 demo_db
        \<lparr>request_user = Some bob,
         request_method = POST \<lparr>form_title = ''mine'', form_text = ''now'',
           form_pub_date = Some 5, form_category = Some 1, form_location = None,
           form_image = None\<rparr>\<rparr>
       = Inr (HttpResponseRedirect (Url_post_detail 1), demo_db)
   \<and> PostDeleteView 1 demo_db \<lparr>request_user = Some bob, request_method = POST ()\<rparr>
       = Inr (HttpResponseRedirect (Url_post_detail 1), demo_db)
   \<and> Comment_objects_get demo_db 2 = Inr (mk_comment 2 2 55 1)
   \<and> comment_author (mk_comment 2 2 55 1) \<noteq> user_id bob
   \<and> CommentUpdateView 2 2 demo_db \<lparr>request_user = Some bob, request_method = POST ''mine''\<rparr>
       = Inr (HttpResponseRedirect (Url_post_detail 2), demo_db)
   \<and> CommentDeleteView 2 2 demo_db \<lparr>request_user = Some bob, request_method = POST ()\<rparr>
       = Inr (HttpResponseRedirect (Url_post_detail 2), demo_db)"
proof -
  have h1: "Post_objects_get demo_db 1 = Inr (mk_post 1 100 1 (Some 1) True)
      \<and> post_author (mk_post 1 100 1 (Some 1) True) \<noteq> Some (user_id bob)"
    by code_simp
  have h2: "Comment_objects_get demo_db 2 = Inr (mk_comment 2 2 55 1)
      \<and> comment_author (mk_comment 2 2 55 1) \<noteq> user_id bob"
    by code_simp
  from h1 h2 non_author_soft_deny [of demo_db 1 "mk_post 1 100 1 (Some 1) True" bob
      "POST \<lparr>form_title = ''mine'', form_text = ''now'',
           form_pub_date = Some 5, form_category = Some 1, form_location = None,
           form_image = None\<rparr>" "POST ()" 2 "mk_comment 2 2 55 1" 2 "POST ''mine''" "POST ()"]
  show ?thesis by blast
qed

text \<open>
  Claim C3 as stated fails: comment 1 belongs to post 2; asked to edit it
  under the URL of post 1, the view redirects to post 1.
\<close>

theorem comment_redirect_ignores_comment_post:
  "Comment_objects_get demo_db 1 = Inr (mk_comment 1 2 60 2)
   \<and> comment_post (mk_comment 1 2 60 2) = 2
   \<and> \<not> author_eq (Some (comment_author (mk_comment 1 2 60 2))) (Some alice)
   \<and> CommentUpdateView 1 1 demo_db \<lparr>request_user = Some alice, request_method = POST ''edited''\<rparr>
        = Inr (HttpResponseRedirect (Url_post_detail 1), demo_db)
   \<and> CommentUpdateView 1 1 demo_db \<lparr>request_user = Some alice, request_method = POST ''edited''\<rparr>
        \<noteq> Inr (HttpResponseRedirect (Url_post_detail (comment_post (mk_comment 1 2 60 2))), demo_db)"
  by code_simp

section \<open>Unauthenticated requests\<close>

lemma LoginRequiredMixin_dispatch_anonymous:
  "request_user request = None \<Longrightarrow>
     LoginRequiredMixin_dispatch super db request = Inr (HttpResponseRedirect Url_login, db)"
  by (simp add: LoginRequiredMixin_dispatch_def is_authenticated_def)

lemma PostCreateView_anonymous:
  "request_user request = None \<Longrightarrow>
     PostCreateView d now db request = Inr (HttpResponseRedirect Url_login, db)"
  by (simp add: PostCreateView_def LoginRequiredMixin_dispatch_anonymous)

lemma CommentCreateView_anonymous:
  "request_user request = None \<Longrightarrow> Post_objects_get db pid = Inr post \<Longrightarrow>
     CommentCreateView pid now db request = Inr (HttpResponseRedirect Url_login, db)"
  by (simp add: CommentCreateView_def LoginRequiredMixin_dispatch_anonymous)

lemma PostMixin_dispatch_anonymous:
  "request_user request = None \<Longrightarrow> Post_objects_get db pid = Inr post \<Longrightarrow>
     PostMixin_dispatch pid super db request
       = Inr (HttpResponseRedirect (Url_post_detail pid), db)"
  by (simp add: PostMixin_dispatch_def author_eq_def)

lemma CommentMixin_dispatch_anonymous:
  "request_user request = None \<Longrightarrow> Comment_objects_get db cid = Inr comment \<Longrightarrow>
     CommentMixin_dispatch pid cid super db request
       = Inr (HttpResponseRedirect (Url_post_detail pid), db)"
  by (simp add: CommentMixin_dispatch_def author_eq_def)

lemma ProfileUpdateView_anonymous:
  "request_user request = None \<Longrightarrow> ProfileUpdateView UserForm_clean db request = Inl Http404"
proof -
  assume "request_user request = None"
  then show ?thesis by (simp add: ProfileUpdateView_def request_pk_def)
qed

text \<open>
  Claim C4. The claim sends every unauthenticated attempt at a protected
  operation to the login page. \<^verbatim>\<open>PostMixin\<close>, \<^verbatim>\<open>CommentMixin\<close> and the
  \<^verbatim>\<open>dispatch\<close> of \<^verbatim>\<open>ProfileUpdateView\<close> and \<^verbatim>\<open>CommentCreateView\<close>
  run before \<^verbatim>\<open>LoginRequiredMixin\<close>: an anonymous update or delete of an
  existing post or comment is redirected to a post's detail view, an
  anonymous profile update is NotFound, and so is an anonymous comment on a
  missing post.
\<close>

theorem anonymous_update_not_sent_to_login:
  "\<not> is_authenticated None
   \<and> PostUpdateView 1 demo_db \<lparr>request_user = None, request_method = GET\<rparr>
       = Inr (HttpResponseRedirect (Url_post_detail 1), demo_db)
   \<and> PostDeleteView 1 demo_db \<lparr>request_user = None, request_method = POST ()\<rparr>
       = Inr (HttpResponseRedirect (Url_post_detail 1), demo_db)
   \<and> CommentUpdateView 2 1 demo_db \<lparr>request_user = None, request_method = GET\<rparr>
       = Inr (HttpResponseRedirect (Url_post_detail 2), demo_db)
   \<and> CommentDeleteView 2 1 demo_db \<lparr>request_user = None, request_method = POST ()\<rparr>
       = Inr (HttpResponseRedirect (Url_post_detail 2), demo_db)
   \<and> ProfileUpdateView (\<lambda>db instance data. Inr (instance\<lparr>first_name := data\<rparr>)) demo_db
        \<lparr>request_user = None, request_method = POST ''Eve''\<rparr>
       = Inl Http404
   \<and> CommentCreateView 9 100 demo_db \<lparr>request_user = None, request_method = POST ''hi''\<rparr>
       = Inl Http404"
  by code_simp

section \<open>The category feed\<close>

lemma published_category_unique:
  assumes "distinct (map category_slug (categories db))"
    and "c \<in> set (categories db)" and "category_slug c = slug"
  shows "filter (\<lambda>c. category_slug c = slug \<and> category_is_published c) (categories db)
           = (if category_is_published c then [c] else [])"
proof -
  have "filter (\<lambda>x. category_slug x = slug) (categories db) = [c]"
    using filter_unique [OF assms(1,2)] assms(3) by simp
  moreover have "filter (\<lambda>c. category_slug c = slug \<and> category_is_published c) (categories db)
      = filter category_is_published (filter (\<lambda>x. category_slug x = slug) (categories db))"
    by (simp add: conj_commute)
  ultimately show ?thesis by simp
qed

lemma CategoryPostsListView_Http404:
  assumes "filter (\<lambda>c. category_slug c = slug \<and> category_is_published c) (categories db) = []"
  shows "CategoryPostsListView N db now slug page = Inl Http404"
proof (cases "paginate_queryset N page (CategoryPostsListView_get_queryset db now slug)")
  case (Inl e)
  then show ?thesis
    using paginate_queryset_error [OF Inl] by (simp add: CategoryPostsListView_def)
next
  case (Inr pg)
  moreover have "get_object_or_404 (\<lambda>c. category_slug c = slug \<and> category_is_published c)
      (categories db) = Inl Http404"
    using assms by (simp add: get_object_or_404_Http404)
  ultimately show ?thesis by (simp add: CategoryPostsListView_def)
qed

lemma CategoryPostsListView_get_queryset_rows:
  "map fst (CategoryPostsListView_get_queryset db now slug) =
     order_by_desc pub_date
       (filter (\<lambda>p. public_filter db now p \<and> category__slug db slug p) (posts db))"
  by (simp add: CategoryPostsListView_get_queryset_def PostManager_get_queryset_def
      filter_annotate map_fst_annotate filter_order_by_desc conj_commute)

lemma CategoryPostsListView_get_queryset_counts:
  "map snd (CategoryPostsListView_get_queryset db now slug) =
     map (Count_comments db) (map fst (CategoryPostsListView_get_queryset db now slug))"
  by (simp add: CategoryPostsListView_get_queryset_def PostManager_get_queryset_def
      filter_annotate map_fst_annotate map_snd_annotate)

lemma category__slug_iff:
  assumes "distinct (map category_id (categories db))"
    and "distinct (map category_slug (categories db))"
    and "c \<in> set (categories db)"
  shows "category__slug db (category_slug c) p = (post_category p = Some (category_id c))"
proof (cases "post_category p")
  case None
  then show ?thesis by (simp add: category__slug_def category_of_def)
next
  case (Some k)
  show ?thesis
  proof (cases "find (\<lambda>r. category_id r = k) (categories db)")
    case None
    then have "k \<noteq> category_id c"
      using assms(3) by (auto simp: find_None_iff)
    with None Some show ?thesis by (simp add: category__slug_def category_of_def)
  next
    case (Some r)
    then have r: "category_id r = k" "r \<in> set (categories db)"
      using find_SomeD [of "\<lambda>r. category_id r = k" "categories db" r] by simp_all
    have "(category_slug r = category_slug c) = (k = category_id c)"
      using r assms distinct_map_eqD [of category_slug "categories db" r c]
        distinct_map_eqD [of category_id "categories db" r c] by auto
    with Some \<open>post_category p = Some k\<close> show ?thesis
      by (simp add: category__slug_def category_of_def)
  qed
qed

text \<open>
  With unique slugs the category feed is NotFound when no category has the
  slug and when the category with the slug is not published. Otherwise the
  first page, and every page the paginator has, is answered with the category
  and a page of the feed; the feed is the manager's listing restricted to the
  posts whose category has the slug.
\<close>

lemma CategoryPostsListView_outcomes:
  assumes "distinct (map category_slug (categories db))"
  shows
    "((\<forall>c \<in> set (categories db). category_slug c \<noteq> slug) \<longrightarrow>
        CategoryPostsListView N db now slug page = Inl Http404)
     \<and> (c \<in> set (categories db) \<and> category_slug c = slug \<and> \<not> category_is_published c \<longrightarrow>
        CategoryPostsListView N db now slug page = Inl Http404)
     \<and> (c \<in> set (categories db) \<and> category_slug c = slug \<and> category_is_published c \<longrightarrow>
        CategoryPostsListView N db now slug 1 =
          Inr (TemplateResponse ''blog/category.html''
                 (Context_category
                    (if N = 0 then CategoryPostsListView_get_queryset db now slug
                     else take N (CategoryPostsListView_get_queryset db now slug)) c))
        \<and> (\<forall>page_obj.
              paginate_queryset N page (CategoryPostsListView_get_queryset db now slug)
                = Inr page_obj \<longrightarrow>
              CategoryPostsListView N db now slug page =
                Inr (TemplateResponse ''blog/category.html'' (Context_category page_obj c))))
     \<and> map fst (CategoryPostsListView_get_queryset db now slug) =
         order_by_desc pub_date
           (filter (\<lambda>p. (post_is_published p \<and> category__is_published db p \<and> pub_date p < now)
                         \<and> category__slug db slug p) (posts db))
     \<and> map snd (CategoryPostsListView_get_queryset db now slug) =
         map (Count_comments db) (map fst (CategoryPostsListView_get_queryset db now slug))"
proof -
  have none: "CategoryPostsListView N db now slug page = Inl Http404"
    if "\<forall>c \<in> set (categories db). category_slug c \<noteq> slug"
    using that by (intro CategoryPostsListView_Http404) (auto simp: filter_empty_conv)
  have unpublished: "CategoryPostsListView N db now slug page = Inl Http404"
    if "c \<in> set (categories db)" "category_slug c = slug" "\<not> category_is_published c"
    using published_category_unique [OF assms that(1,2)] that(3)
    by (intro CategoryPostsListView_Http404) simp
  have found: "get_object_or_404 (\<lambda>c. category_slug c = slug \<and> category_is_published c)
      (categories db) = Inr c"
    if "c \<in> set (categories db)" "category_slug c = slug" "category_is_published c"
    using published_category_unique [OF assms that(1,2)] that(3)
    by (simp add: get_object_or_404_Inr_iff)
  have first: "CategoryPostsListView N db now slug 1 =
          Inr (TemplateResponse ''blog/category.html''
                 (Context_category
                    (if N = 0 then CategoryPostsListView_get_queryset db now slug
                     else take N (CategoryPostsListView_get_queryset db now slug)) c))"
    if "c \<in> set (categories db)" "category_slug c = slug" "category_is_published c"
    using found [OF that] by (simp add: CategoryPostsListView_def paginate_queryset_first)
  have any: "CategoryPostsListView N db now slug page =
                Inr (TemplateResponse ''blog/category.html'' (Context_category page_obj c))"
    if "c \<in> set (categories db)" "category_slug c = slug" "category_is_published c"
      "paginate_queryset N page (CategoryPostsListView_get_queryset db now slug) = Inr page_obj"
    for page_obj
    using found [OF that(1,2,3)] that(4) by (simp add: CategoryPostsListView_def)
  have rows: "map fst (CategoryPostsListView_get_queryset db now slug) =
         order_by_desc pub_date
           (filter (\<lambda>p. (post_is_published p \<and> category__is_published db p \<and> pub_date p < now)
                         \<and> category__slug db slug p) (posts db))"
    using CategoryPostsListView_get_queryset_rows [of db now slug]
    by (simp add: public_filter_def)
  from none unpublished first any rows CategoryPostsListView_get_queryset_counts [of db now slug]
  show ?thesis by blast
qed

lemma CategoryPostsListView_outcomes_example:
  "distinct (map category_slug (categories demo_db))
   \<and> ''food'' \<notin> category_slug ` set (categories demo_db)
   \<and> CategoryPostsListView 10 demo_db 101 ''food'' 1 = Inl Http404
   \<and> drafts \<in> set (categories demo_db) \<and> \<not> category_is_published drafts
   \<and> CategoryPostsListView 10 demo_db 101 ''drafts'' 1 = Inl Http404
   \<and> travel \<in> set (categories demo_db) \<and> category_is_published travel
   \<and> CategoryPostsListView 10 demo_db 101 ''travel'' 1 =
        Inr (TemplateResponse ''blog/category.html''
               (Context_category
                  [(mk_post 1 100 1 (Some 1) True, 1), (mk_post 2 50 1 (Some 1) True, 2)] travel))
   \<and> CategoryPostsListView 1 demo_db 101 ''travel'' 2 =
        Inr (TemplateResponse ''blog/category.html''
               (Context_category [(mk_post 2 50 1 (Some 1) True, 2)] travel))"
proof -
  have d: "distinct (map category_slug (categories demo_db))"
    by code_simp
  have food': "''food'' \<notin> category_slug ` set (categories demo_db)"
    by code_simp
  then have food: "\<forall>c \<in> set (categories demo_db). category_slug c \<noteq> ''food''"
    by (metis image_eqI)
  have dr: "drafts \<in> set (categories demo_db) \<and> category_slug drafts = ''drafts''
      \<and> \<not> category_is_published drafts"
    by code_simp
  have tr: "travel \<in> set (categories demo_db) \<and> category_slug travel = ''travel''
      \<and> category_is_published travel"
    by code_simp
  have feed: "CategoryPostsListView_get_queryset demo_db 101 ''travel'' =
      [(mk_post 1 100 1 (Some 1) True, 1), (mk_post 2 50 1 (Some 1) True, 2)]"
    by code_simp
  have page2: "paginate_queryset 1 2
      [(mk_post 1 100 1 (Some 1) True, 1::nat), (mk_post 2 50 1 (Some 1) True, 2)]
      = Inr [(mk_post 2 50 1 (Some 1) True, 2)]"
    by code_simp
  have a: "CategoryPostsListView 10 demo_db 101 ''food'' 1 = Inl Http404"
    using CategoryPostsListView_outcomes [OF d, of "''food''" 10 101 1] food by blast
  have b: "CategoryPostsListView 10 demo_db 101 ''drafts'' 1 = Inl Http404"
    using CategoryPostsListView_outcomes [OF d, of "''drafts''" 10 101 1 drafts] dr by blast
  have c: "CategoryPostsListView 10 demo_db 101 ''travel'' 1 =
        Inr (TemplateResponse ''blog/category.html''
               (Context_category
                  [(mk_post 1 100 1 (Some 1) True, 1), (mk_post 2 50 1 (Some 1) True, 2)] travel))"
    using CategoryPostsListView_outcomes [OF d, of "''travel''" 10 101 1 travel] tr by (simp add: feed)
  have e: "CategoryPostsListView 1 demo_db 101 ''travel'' 2 =
        Inr (TemplateResponse ''blog/category.html''
               (Context_category [(mk_post 2 50 1 (Some 1) True, 2)] travel))"
    using CategoryPostsListView_outcomes [OF d, of "''travel''" 1 101 2 travel] tr page2 by (simp add: feed)
  from d food' dr tr a b c e show ?thesis by simp
qed

text \<open>
  Claim C5. For a published category the claim returns the posts of the
  category that are published and dated at or before the current time. Post 1
  is in the published category \<^verbatim>\<open>travel\<close>, is published and is dated 100.
  Asked at time 100 the feed of \<^verbatim>\<open>travel\<close> holds post 2 only; asked at
  time 101 it holds posts 1 and 2. The feed of the other category holds its
  own post and none of \<^verbatim>\<open>travel\<close>.
\<close>

theorem category_feed_drops_post_published_now:
  "travel \<in> set (categories demo_db_open) \<and> category_slug travel = ''travel''
   \<and> category_is_published travel
   \<and> mk_post 1 100 1 (Some 1) True \<in> set (posts demo_db_open)
   \<and> post_category (mk_post 1 100 1 (Some 1) True) = Some (category_id travel)
   \<and> post_is_published (mk_post 1 100 1 (Some 1) True)
   \<and> pub_date (mk_post 1 100 1 (Some 1) True) \<le> 100
   \<and> CategoryPostsListView 10 demo_db_open 100 ''travel'' 1 =
        Inr (TemplateResponse ''blog/category.html''
               (Context_category [(mk_post 2 50 1 (Some 1) True, 2)] travel))
   \<and> CategoryPostsListView 10 demo_db_open 101 ''travel'' 1 =
        Inr (TemplateResponse ''blog/category.html''
               (Context_category
                  [(mk_post 1 100 1 (Some 1) True, 1), (mk_post 2 50 1 (Some 1) True, 2)] travel))
   \<and> CategoryPostsListView 10 demo_db_open 100 ''drafts'' 1 =
        Inr (TemplateResponse ''blog/category.html''
               (Context_category [(mk_post 5 20 2 (Some 2) True, 0)]
                  (drafts\<lparr>category_is_published := True\<rparr>)))"
  by code_simp

section \<open>The profile listing\<close>

lemma author__username_iff:
  assumes "distinct (map user_id (users db))" and "distinct (map username (users db))"
    and "U \<in> set (users db)"
  shows "author__username db (username U) p = (post_author p = Some (user_id U))"
proof (cases "post_author p")
  case None
  then show ?thesis by (simp add: author__username_def author_of_def)
next
  case (Some a)
  show ?thesis
  proof (cases "find (\<lambda>u. user_id u = a) (users db)")
    case None
    then have "a \<noteq> user_id U"
      using assms(3) by (auto simp: find_None_iff)
    with None Some show ?thesis by (simp add: author__username_def author_of_def)
  next
    case (Some u)
    then have u: "user_id u = a" "u \<in> set (users db)"
      using find_SomeD [of "\<lambda>u. user_id u = a" "users db" u] by simp_all
    have "(username u = username U) = (a = user_id U)"
      using u assms distinct_map_eqD [of username "users db" u U]
        distinct_map_eqD [of user_id "users db" u U] by auto
    with Some \<open>post_author p = Some a\<close> show ?thesis
      by (simp add: author__username_def author_of_def)
  qed
qed

lemma ProfileListView_get_queryset_rows:
  "map fst (ProfileListView_get_queryset db now user uname) =
     order_by_desc pub_date
       (filter (\<lambda>p. author__username db uname p
                     \<and> (request_username user \<noteq> uname \<longrightarrow> public_filter db now p))
          (posts db))"
  by (simp add: ProfileListView_get_queryset_def Let_def filter_annotate map_fst_annotate
      filter_order_by_desc conj_commute)

lemma annotate_counts:
  "map snd (annotate db rows) = map (Count_comments db) (map fst (annotate db rows))"
  by (simp add: annotate_def comp_def)

lemma ProfileListView_get_queryset_counts:
  "map snd (ProfileListView_get_queryset db now user uname) =
     map (Count_comments db) (map fst (ProfileListView_get_queryset db now user uname))"
proof -
  have "\<exists>rows. ProfileListView_get_queryset db now user uname = annotate db rows"
    by (auto simp: ProfileListView_get_queryset_def Let_def filter_annotate)
  then show ?thesis by (metis annotate_counts)
qed

lemma request_username_other:
  assumes "distinct (map username (users db))" and "U \<in> set (users db)"
    and "username U \<noteq> []"
    and "case V of None \<Rightarrow> True | Some v \<Rightarrow> v \<in> set (users db)"
  shows "(request_username V = username U) = (V = Some U)"
proof (cases V)
  case None
  with assms(3) show ?thesis by (simp add: request_username_def)
next
  case (Some v)
  with assms(4) have "v \<in> set (users db)" by simp
  then have "(username v = username U) = (v = U)"
    using distinct_map_eqD [OF assms(1) _ assms(2), of v] by auto
  with Some show ?thesis by (simp add: request_username_def)
qed

text \<open>
  With unique user ids and names, the profile of a user \<open>U\<close> lists all
  posts of \<open>U\<close> to \<open>U\<close>, and to every other viewer those posts of
  \<open>U\<close> that are published, in a published category and dated strictly
  before the current time; either way newest first, each post with its comment
  count.
\<close>

lemma ProfileListView_listing:
  assumes "distinct (map user_id (users db))" and "distinct (map username (users db))"
    and "U \<in> set (users db)" and "username U \<noteq> []"
    and "case V of None \<Rightarrow> True | Some v \<Rightarrow> v \<in> set (users db)"
  shows
    "(V = Some U \<longrightarrow>
        map fst (ProfileListView_get_queryset db now V (username U)) =
          order_by_desc pub_date (filter (\<lambda>p. post_author p = Some (user_id U)) (posts db)))
     \<and> (V \<noteq> Some U \<longrightarrow>
        map fst (ProfileListView_get_queryset db now V (username U)) =
          order_by_desc pub_date
            (filter (\<lambda>p. post_author p = Some (user_id U) \<and> post_is_published p
                          \<and> category__is_published db p \<and> pub_date p < now) (posts db))
        \<and> (\<forall>p \<in> fst ` set (ProfileListView_get_queryset db now V (username U)).
              post_is_published p \<and> category__is_published db p \<and> pub_date p \<le> now))
     \<and> sorted_wrt (\<lambda>a b. pub_date b \<le> pub_date a)
          (map fst (ProfileListView_get_queryset db now V (username U)))
     \<and> map snd (ProfileListView_get_queryset db now V (username U)) =
          map (Count_comments db) (map fst (ProfileListView_get_queryset db now V (username U)))
     \<and> ProfileListView N db now V (username U) 1 =
          Inr (TemplateResponse ''blog/profile.html''
                 (Context_profile
                    (if N = 0 then ProfileListView_get_queryset db now V (username U)
                     else take N (ProfileListView_get_queryset db now V (username U))) U))"
proof -
  let ?L = "ProfileListView_get_queryset db now V (username U)"
  note au = author__username_iff [OF assms(1,2,3)]
  note ru = request_username_other [OF assms(2,3,4,5)]
  have own: "map fst ?L =
      order_by_desc pub_date (filter (\<lambda>p. post_author p = Some (user_id U)) (posts db))"
    if "V = Some U"
    using that ru by (simp add: ProfileListView_get_queryset_rows au)
  have other: "map fst ?L =
      order_by_desc pub_date
        (filter (\<lambda>p. post_author p = Some (user_id U) \<and> post_is_published p
                      \<and> category__is_published db p \<and> pub_date p < now) (posts db))"
    if "V \<noteq> Some U"
    using that ru by (simp add: ProfileListView_get_queryset_rows au public_filter_def)
  have only: "\<forall>p \<in> fst ` set ?L.
      post_is_published p \<and> category__is_published db p \<and> pub_date p \<le> now"
    if "V \<noteq> Some U"
  proof -
    have "fst ` set ?L = set (map fst ?L)" by simp
    also have "\<dots> = {p \<in> set (posts db). post_author p = Some (user_id U) \<and> post_is_published p
                      \<and> category__is_published db p \<and> pub_date p < now}"
      by (simp only: other [OF that] set_order_by_desc set_filter)
    finally show ?thesis by auto
  qed
  have sorted: "sorted_wrt (\<lambda>a b. pub_date b \<le> pub_date a) (map fst ?L)"
    by (simp only: ProfileListView_get_queryset_rows sorted_order_by_desc)
  have "get_object_or_404 (\<lambda>u. username u = username U) (users db) = Inr U"
    using filter_unique [OF assms(2,3)] by (simp add: get_object_or_404_Inr_iff)
  then have view: "ProfileListView N db now V (username U) 1 =
      Inr (TemplateResponse ''blog/profile.html''
             (Context_profile (if N = 0 then ?L else take N ?L) U))"
    by (simp add: ProfileListView_def paginate_queryset_first)
  from own other only sorted view ProfileListView_get_queryset_counts [of db now V "username U"]
  show ?thesis by blast
qed

lemma ProfileListView_listing_example:
  "distinct (map user_id (users demo_db)) \<and> distinct (map username (users demo_db))
   \<and> alice \<in> set (users demo_db) \<and> username alice \<noteq> [] \<and> bob \<in> set (users demo_db)
   \<and> ProfileListView 10 demo_db 100 (Some alice) (username alice) 1 =
        Inr (TemplateResponse ''blog/profile.html''
               (Context_profile
                  [(mk_post 1 100 1 (Some 1) True, 1), (mk_post 3 70 1 None True, 0),
                   (mk_post 2 50 1 (Some 1) True, 2), (mk_post 4 10 1 (Some 1) False, 0)] alice))
   \<and> ProfileListView 10 demo_db 100 (Some bob) (username alice) 1 =
        Inr (TemplateResponse ''blog/profile.html''
               (Context_profile [(mk_post 2 50 1 (Some 1) True, 2)] alice))
   \<and> ProfileListView 10 demo_db 100 None (username alice) 1 =
        Inr (TemplateResponse ''blog/profile.html''
               (Context_profile [(mk_post 2 50 1 (Some 1) True, 2)] alice))
   \<and> map fst (ProfileListView_get_queryset demo_db 100 (Some alice) (username alice)) =
        order_by_desc pub_date (filter (\<lambda>p. post_author p = Some (user_id alice)) (posts demo_db))
   \<and> map fst (ProfileListView_get_queryset demo_db 100 (Some bob) (username alice)) =
        order_by_desc pub_date
          (filter (\<lambda>p. post_author p = Some (user_id alice) \<and> post_is_published p
                        \<and> category__is_published demo_db p \<and> pub_date p < 100) (posts demo_db))"
proof -
  have h: "distinct (map user_id (users demo_db))" "distinct (map username (users demo_db))"
    "alice \<in> set (users demo_db)" "username alice \<noteq> []" "bob \<in> set (users demo_db)"
    by code_simp+
  have own: "ProfileListView_get_queryset demo_db 100 (Some alice) (username alice) =
      [(mk_post 1 100 1 (Some 1) True, 1), (mk_post 3 70 1 None True, 0),
       (mk_post 2 50 1 (Some 1) True, 2), (mk_post 4 10 1 (Some 1) False, 0)]"
    by code_simp
  have other: "ProfileListView_get_queryset demo_db 100 (Some bob) (username alice) =
      [(mk_post 2 50 1 (Some 1) True, 2)]"
    by code_simp
  have anon: "ProfileListView_get_queryset demo_db 100 None (username alice) =
      [(mk_post 2 50 1 (Some 1) True, 2)]"
    by code_simp
  have ne: "Some bob \<noteq> Some alice" "None \<noteq> Some alice"
    by code_simp+
  have a: "ProfileListView 10 demo_db 100 (Some alice) (username alice) 1 =
        Inr (TemplateResponse ''blog/profile.html''
               (Context_profile
                  [(mk_post 1 100 1 (Some 1) True, 1), (mk_post 3 70 1 None True, 0),
                   (mk_post 2 50 1 (Some 1) True, 2), (mk_post 4 10 1 (Some 1) False, 0)] alice))"
    and a': "map fst (ProfileListView_get_queryset demo_db 100 (Some alice) (username alice)) =
        order_by_desc pub_date (filter (\<lambda>p. post_author p = Some (user_id alice)) (posts demo_db))"
    using ProfileListView_listing [OF h(1,2,3,4), of "Some alice" 100 10] h(3)
    by (simp_all add: own del: map_eq_conv)
  have b: "ProfileListView 10 demo_db 100 (Some bob) (username alice) 1 =
        Inr (TemplateResponse ''blog/profile.html''
               (Context_profile [(mk_post 2 50 1 (Some 1) True, 2)] alice))"
    and b': "map fst (ProfileListView_get_queryset demo_db 100 (Some bob) (username alice)) =
        order_by_desc pub_date
          (filter (\<lambda>p. post_author p = Some (user_id alice) \<and> post_is_published p
                        \<and> category__is_published demo_db p \<and> pub_date p < 100) (posts demo_db))"
    using ProfileListView_listing [OF h(1,2,3,4), of "Some bob" 100 10] h(5) ne(1)
    by (simp_all add: other del: map_eq_conv)
  have c: "ProfileListView 10 demo_db 100 None (username alice) 1 =
        Inr (TemplateResponse ''blog/profile.html''
               (Context_profile [(mk_post 2 50 1 (Some 1) True, 2)] alice))"
    using ProfileListView_listing [OF h(1,2,3,4), of None 100 10]
    by (simp add: anon)
  from h a b c a' b' show ?thesis by simp
qed

text \<open>
  Claim C6. The owner of a profile is shown all posts of the profile, which
  holds. Every other viewer is to be shown the posts that are published, in a
  published category and dated at or before the current time. Post 1 of
  \<^verbatim>\<open>alice\<close> is published, in the published category \<^verbatim>\<open>travel\<close> and
  dated 100. Asked at time 100, \<^verbatim>\<open>bob\<close> and the anonymous viewer are shown
  post 2 only; at time 101 they are shown posts 1 and 2.
\<close>

theorem profile_drops_post_published_now:
  "alice \<in> set (users demo_db) \<and> username alice = ''alice''
   \<and> mk_post 1 100 1 (Some 1) True \<in> set (posts demo_db)
   \<and> post_author (mk_post 1 100 1 (Some 1) True) = Some (user_id alice)
   \<and> post_is_published (mk_post 1 100 1 (Some 1) True)
   \<and> post_category (mk_post 1 100 1 (Some 1) True) = Some (category_id travel)
   \<and> travel \<in> set (categories demo_db) \<and> category_is_published travel
   \<and> pub_date (mk_post 1 100 1 (Some 1) True) \<le> 100
   \<and> user_id bob \<noteq> user_id alice
   \<and> ProfileListView 10 demo_db 100 (Some bob) ''alice'' 1 =
        Inr (TemplateResponse ''blog/profile.html''
               (Context_profile [(mk_post 2 50 1 (Some 1) True, 2)] alice))
   \<and> ProfileListView 10 demo_db 100 None ''alice'' 1 =
        Inr (TemplateResponse ''blog/profile.html''
               (Context_profile [(mk_post 2 50 1 (Some 1) True, 2)] alice))
   \<and> ProfileListView 10 demo_db 101 (Some bob) ''alice'' 1 =
        Inr (TemplateResponse ''blog/profile.html''
               (Context_profile
                  [(mk_post 1 100 1 (Some 1) True, 1), (mk_post 2 50 1 (Some 1) True, 2)] alice))
   \<and> ProfileListView 10 demo_db 100 (Some alice) ''alice'' 1 =
        Inr (TemplateResponse ''blog/profile.html''
               (Context_profile
                  [(mk_post 1 100 1 (Some 1) True, 1), (mk_post 3 70 1 None True, 0),
                   (mk_post 2 50 1 (Some 1) True, 2), (mk_post 4 10 1 (Some 1) False, 0)] alice))"
  by code_simp

section \<open>Creating comments\<close>

lemma fold_max_ge: "(a::nat) \<le> fold max pks a \<and> (\<forall>k \<in> set pks. k \<le> fold max pks a)"
proof (induction pks arbitrary: a)
  case Nil
  then show ?case by simp
next
  case (Cons p ps)
  have "max p a \<le> fold max ps (max p a)" using Cons.IH by blast
  then show ?case using Cons.IH [of "max p a"] by auto
qed

lemma next_pk_Inr:
  assumes "next_pk seq pks = Inr k"
  shows "seq < k \<and> (\<forall>j \<in> set pks. j < k) \<and> int k \<le> max_int64"
proof -
  from assms have k: "k = Suc (max seq (fold max pks 0))" and "int k \<le> max_int64"
    by (auto simp: next_pk_def Let_def split: if_splits)
  with fold_max_ge [of 0 pks] show ?thesis by (auto simp: less_Suc_eq_le max_def)
qed

lemma next_pk_fresh: "next_pk seq pks = Inr k \<Longrightarrow> k \<notin> set pks"
  using next_pk_Inr [of seq pks k] by blast

lemma CommentCreateView_cases:
  "CommentCreateView pid now db \<lparr>request_user = user, request_method = POST data\<rparr> =
     (case Post_objects_get db pid of
        Inl e \<Rightarrow> Inl e
      | Inr post \<Rightarrow>
          (case user of
             None \<Rightarrow> Inr (HttpResponseRedirect Url_login, db)
           | Some usr \<Rightarrow>
               (case CommentForm_clean data of
                  Inl errors \<Rightarrow>
                    Inr (TemplateResponse ''blog/comment_form.html'' (Context_form errors), db)
                | Inr text \<Rightarrow>
                    (case next_pk (comments_seq db) (map comment_id (comments db)) of
                       Inl e \<Rightarrow> Inl e
                     | Inr k \<Rightarrow>
                         Inr (HttpResponseRedirect (Url_post_detail pid),
                              db\<lparr>comments := comments db @
                                 [\<lparr>comment_id = k,
                                   comment_text = text, comment_post = post_id post,
                                   comment_created_at = now, comment_author = user_id usr\<rparr>],
                                 comments_seq := k\<rparr>)))))"
  by (auto simp: CommentCreateView_def LoginRequiredMixin_dispatch_def is_authenticated_def
      CommentCreateView_form_valid_def PostReverseMixin_get_success_url_def
      split: sum.splits option.splits)

lemma CommentForm_clean_too_long:
  assumes "120 < length (strip data)"
  shows "\<exists>errors. CommentForm_clean data = Inl errors \<and> (''text'', max_length) \<in> set errors"
proof -
  from assms have "strip data \<noteq> []" by auto
  with assms have "(''text'', max_length) \<in> set (CharField_clean ''text'' (Some 120) (strip data))"
    by (simp add: CharField_clean_def)
  then show ?thesis
    by (auto simp: CommentForm_clean_def Let_def)
qed

lemma CommentForm_clean_Inr:
  "CommentForm_clean data = Inr text \<Longrightarrow>
     text = strip data \<and> text \<noteq> [] \<and> length text \<le> 120 \<and> CHR 0x00 \<notin> set text"
  by (auto simp: CommentForm_clean_def Let_def CharField_clean_def split: if_splits)

lemma next_pk_not_Http404: "next_pk seq pks \<noteq> Inl Http404"
  by (simp add: next_pk_def Let_def)

lemma CommentCreateView_Http404:
  "(CommentCreateView pid now db request = Inl Http404) = (Post_objects_get db pid = Inl Http404)"
  using next_pk_not_Http404 [of "comments_seq db" "map comment_id (comments db)"]
  by (auto simp: CommentCreateView_def LoginRequiredMixin_dispatch_def
      CommentCreateView_form_valid_def
      split: sum.splits option.splits http_method.splits)

lemma CommentCreateView_OverflowError:
  "max_int64 < int pid \<Longrightarrow> CommentCreateView pid now db request = Inl OverflowError"
  by (simp add: CommentCreateView_def Post_objects_get_def get_by_pk_or_404_OverflowError)

text \<open>
  Claim C8, as the code has it. The form strips the submitted text before it
  measures it. When the stripped text is longer than 120 characters nothing
  is stored whoever asks, and a logged-in viewer commenting on an existing
  post gets the form back with the length error on \<^verbatim>\<open>text\<close>.
\<close>

theorem overlong_comment_rejected:
  assumes "120 < length (strip data)"
  shows
    "(\<forall>response db'.
        CommentCreateView pid now db \<lparr>request_user = user, request_method = POST data\<rparr>
          = Inr (response, db') \<longrightarrow> db' = db)
     \<and> (Post_objects_get db pid = Inr post \<and> user = Some viewer \<longrightarrow>
          (\<exists>errors.
             CommentCreateView pid now db \<lparr>request_user = user, request_method = POST data\<rparr>
               = Inr (TemplateResponse ''blog/comment_form.html'' (Context_form errors), db)
             \<and> (''text'', max_length) \<in> set errors))"
proof -
  from CommentForm_clean_too_long [OF assms] obtain errors
    where e: "CommentForm_clean data = Inl errors" "(''text'', max_length) \<in> set errors"
    by blast
  then show ?thesis
    by (auto simp: CommentCreateView_cases split: sum.splits option.splits)
qed

theorem overlong_comment_rejected_witness:
  "120 < length (strip (replicate 121 (CHR ''a'')))
   \<and> Post_objects_get demo_db 2 = Inr (mk_post 2 50 1 (Some 1) True)
   \<and> CommentCreateView 2 200 demo_db
        \<lparr>request_user = Some bob, request_method = POST (replicate 121 (CHR ''a''))\<rparr>
      = Inr (TemplateResponse ''blog/comment_form.html'' (Context_form [(''text'', max_length)]),
             demo_db)"
proof -
  have h: "120 < length (strip (replicate 121 (CHR ''a'')))"
    by code_simp
  have p: "Post_objects_get demo_db 2 = Inr (mk_post 2 50 1 (Some 1) True)"
    by code_simp
  have r: "CommentCreateView 2 200 demo_db
        \<lparr>request_user = Some bob, request_method = POST (replicate 121 (CHR ''a''))\<rparr>
      = Inr (TemplateResponse ''blog/comment_form.html'' (Context_form [(''text'', max_length)]),
             demo_db)"
    by code_simp
  from overlong_comment_rejected [OF h, of 2 200 demo_db "Some bob" "mk_post 2 50 1 (Some 1) True" bob]
    h p r show ?thesis by blast
qed

text \<open>
  Claim C8 as stated fails: 120 letters followed by a space are 121
  characters, and the comment is stored, with the 120 letters as its text.
\<close>

theorem padded_comment_is_saved:
  "length (replicate 120 (CHR ''a'') @ '' '') = 121
   \<and> CommentCreateView 2 200 demo_db
        \<lparr>request_user = Some bob, request_method = POST (replicate 120 (CHR ''a'') @ '' '')\<rparr>
      = Inr (HttpResponseRedirect (Url_post_detail 2),
             demo_db\<lparr>comments := comments demo_db @
               [\<lparr>comment_id = 4, comment_text = replicate 120 (CHR ''a''), comment_post = 2,
                 comment_created_at = 200, comment_author = 2\<rparr>],
               comments_seq := 4\<rparr>)
   \<and> demo_db\<lparr>comments := comments demo_db @
               [\<lparr>comment_id = 4, comment_text = replicate 120 (CHR ''a''), comment_post = 2,
                 comment_created_at = 200, comment_author = 2\<rparr>],
               comments_seq := 4\<rparr> \<noteq> demo_db"
  by code_simp

text \<open>
  Claim C10. A logged-in viewer who submits a valid text on an existing post
  gets the comment stored under a key the table has never held and is
  redirected to the post, whatever the publication state of the post,
  provided the keys of the table are not used up. For every request the view
  is NotFound exactly when the id of the URL is within the integer range and
  no post has it; so NotFound is given only for an id that does not exist.
\<close>

theorem comment_on_any_existing_post:
  "(Post_objects_get db pid = Inr post \<and> CommentForm_clean data = Inr text
      \<and> next_pk (comments_seq db) (map comment_id (comments db)) = Inr k \<longrightarrow>
      CommentCreateView pid now db \<lparr>request_user = Some viewer, request_method = POST data\<rparr>
        = Inr (HttpResponseRedirect (Url_post_detail pid),
               db\<lparr>comments := comments db @
                  [\<lparr>comment_id = k, comment_text = text, comment_post = pid,
                    comment_created_at = now, comment_author = user_id viewer\<rparr>],
                  comments_seq := k\<rparr>)
      \<and> k \<notin> comment_id ` set (comments db) \<and> comments_seq db < k)
   \<and> ((CommentCreateView pid now db request = Inl Http404)
        = (int pid \<le> max_int64 \<and> (\<forall>p \<in> set (posts db). post_id p \<noteq> pid)))"
proof -
  have a: "CommentCreateView pid now db \<lparr>request_user = Some viewer, request_method = POST data\<rparr>
        = Inr (HttpResponseRedirect (Url_post_detail pid),
               db\<lparr>comments := comments db @
                  [\<lparr>comment_id = k, comment_text = text, comment_post = pid,
                    comment_created_at = now, comment_author = user_id viewer\<rparr>],
                  comments_seq := k\<rparr>)
      \<and> k \<notin> comment_id ` set (comments db) \<and> comments_seq db < k"
    if "Post_objects_get db pid = Inr post" "CommentForm_clean data = Inr text"
      "next_pk (comments_seq db) (map comment_id (comments db)) = Inr k"
    using that Post_objects_get_Inr [OF that(1)] next_pk_Inr [OF that(3)]
      next_pk_fresh [OF that(3)]
    by (simp add: CommentCreateView_cases)
  have "(CommentCreateView pid now db request = Inl Http404)
      = (Post_objects_get db pid = Inl Http404)"
    by (rule CommentCreateView_Http404)
  also have "\<dots> = (int pid \<le> max_int64 \<and> (\<forall>p \<in> set (posts db). post_id p \<noteq> pid))"
    by (simp add: Post_objects_get_def get_by_pk_or_404_Http404 filter_empty_conv)
  finally show ?thesis using a by blast
qed

text \<open>
  The comment with the largest key, 3, has been deleted; the new comment on
  the unpublished post 4 gets key 4.
\<close>

theorem comment_on_any_existing_post_witness:
  "Post_objects_get (demo_db\<lparr>comments := [mk_comment 1 2 60 2, mk_comment 2 2 55 1]\<rparr>) 4
       = Inr (mk_post 4 10 1 (Some 1) False)
   \<and> CommentForm_clean ''nice'' = Inr ''nice''
   \<and> next_pk (comments_seq (demo_db\<lparr>comments := [mk_comment 1 2 60 2, mk_comment 2 2 55 1]\<rparr>))
        (map comment_id [mk_comment 1 2 60 2, mk_comment 2 2 55 1]) = Inr 4
   \<and> PostDetailView_dispatch (demo_db\<lparr>comments := [mk_comment 1 2 60 2, mk_comment 2 2 55 1]\<rparr>)
        100 (Some bob) 4 = Inl Http404
   \<and> CommentCreateView 4 100 (demo_db\<lparr>comments := [mk_comment 1 2 60 2, mk_comment 2 2 55 1]\<rparr>)
        \<lparr>request_user = Some bob, request_method = POST ''nice''\<rparr>
       = Inr (HttpResponseRedirect (Url_post_detail 4),
              demo_db\<lparr>comments := [mk_comment 1 2 60 2, mk_comment 2 2 55 1] @
                 [\<lparr>comment_id = 4, comment_text = ''nice'', comment_post = 4,
                   comment_created_at = 100, comment_author = user_id bob\<rparr>],
                 comments_seq := 4\<rparr>)
   \<and> 9 \<notin> post_id ` set (posts demo_db)
   \<and> CommentCreateView 9 100 demo_db \<lparr>request_user = Some bob, request_method = POST ''nice''\<rparr>
       = Inl Http404
   \<and> CommentCreateView 9223372036854775808 100 demo_db
        \<lparr>request_user = Some bob, request_method = POST ''nice''\<rparr> \<noteq> Inl Http404"
proof -
  let ?db = "demo_db\<lparr>comments := [mk_comment 1 2 60 2, mk_comment 2 2 55 1]\<rparr>"
  have h: "Post_objects_get ?db 4 = Inr (mk_post 4 10 1 (Some 1) False)"
    "CommentForm_clean ''nice'' = Inr ''nice''"
    "PostDetailView_dispatch ?db 100 (Some bob) 4 = Inl Http404"
    "9 \<notin> post_id ` set (posts demo_db)"
    by code_simp+
  have k: "next_pk (comments_seq ?db) (map comment_id (comments ?db)) = Inr 4"
    by code_simp
  have c: "comments ?db = [mk_comment 1 2 60 2, mk_comment 2 2 55 1]"
    by simp
  have small: "int 9 \<le> max_int64" and big: "\<not> int 9223372036854775808 \<le> max_int64"
    by (simp_all add: max_int64_def)
  from h(4) have no: "\<forall>p \<in> set (posts demo_db). post_id p \<noteq> 9"
    by (metis imageI)
  have a: "CommentCreateView 4 100 ?db \<lparr>request_user = Some bob, request_method = POST ''nice''\<rparr>
       = Inr (HttpResponseRedirect (Url_post_detail 4),
              demo_db\<lparr>comments := [mk_comment 1 2 60 2, mk_comment 2 2 55 1] @
                 [\<lparr>comment_id = 4, comment_text = ''nice'', comment_post = 4,
                   comment_created_at = 100, comment_author = user_id bob\<rparr>],
                 comments_seq := 4\<rparr>)"
    using comment_on_any_existing_post [of ?db 4 "mk_post 4 10 1 (Some 1) False" "''nice''"
        "''nice''" 4 100 bob] h(1,2) k by (simp add: c)
  have b: "CommentCreateView 9 100 demo_db \<lparr>request_user = Some bob, request_method = POST ''nice''\<rparr>
       = Inl Http404"
    using comment_on_any_existing_post [of demo_db 9 _ _ _ _ 100 _
        "\<lparr>request_user = Some bob, request_method = POST ''nice''\<rparr>"] no small by blast
  have d: "CommentCreateView 9223372036854775808 100 demo_db
        \<lparr>request_user = Some bob, request_method = POST ''nice''\<rparr> \<noteq> Inl Http404"
    using comment_on_any_existing_post [of demo_db 9223372036854775808 _ _ _ _ 100 _
        "\<lparr>request_user = Some bob, request_method = POST ''nice''\<rparr>"] big by blast
  from h k a b d show ?thesis by (simp add: c)
qed

section \<open>Creating posts\<close>

lemma PostForm_clean_Inr:
  assumes "PostForm_clean db data = Inr (Inr cleaned)"
  shows "cleaned_title cleaned = strip (form_title data)
       \<and> cleaned_text cleaned = strip (form_text data)
       \<and> Some (cleaned_pub_date cleaned) = form_pub_date data
       \<and> cleaned_category cleaned = form_category data
       \<and> cleaned_location cleaned = form_location data
       \<and> cleaned_image cleaned = form_image data"
  using assms
  by (auto simp: PostForm_clean_def Let_def split: sum.splits option.splits if_splits)

lemma PostForm_clean_valid:
  assumes "PostForm_clean db data = Inr (Inr cleaned)"
  shows "cleaned_title cleaned \<noteq> [] \<and> length (cleaned_title cleaned) \<le> 256
       \<and> cleaned_text cleaned \<noteq> []
       \<and> (\<exists>c \<in> set (categories db). cleaned_category cleaned = Some (category_id c))"
  using assms
  by (auto simp: PostForm_clean_def Let_def CharField_clean_def ModelChoiceField_clean_def
      split: sum.splits option.splits if_splits)

text \<open>
  Claim C9, as the code has it. The database keeps the comments' references
  to posts intact, the viewer is the user row of its id and the keys of the
  post table are not used up. A valid create-post request of a logged-in
  viewer stores one new post under a new key. Read back by its author at any
  later time, the detail view shows that post with an empty comment thread
  and the author's profile lists it with comment count 0. Its
  \<^verbatim>\<open>pub_date\<close>, category and location are the submitted ones; its title
  and text are the submitted ones without leading and trailing whitespace.
  Its author is the viewer and \<^verbatim>\<open>is_published\<close> is the model's default;
  the form has no field for either.
\<close>

theorem created_post_round_trip:
  assumes "PostForm_clean db data = Inr (Inr cleaned)"
    and "\<forall>c \<in> set (comments db). comment_post c \<in> post_id ` set (posts db)"
    and "find (\<lambda>u. user_id u = user_id viewer) (users db) = Some viewer"
    and "next_pk (posts_seq db) (map post_id (posts db)) = Inr k"
  shows
    "\<exists>post.
       PostCreateView is_published_default now db
           \<lparr>request_user = Some viewer, request_method = POST data\<rparr>
         = Inr (HttpResponseRedirect (Url_profile (username viewer)),
                db\<lparr>posts := posts db @ [post], posts_seq := k\<rparr>)
       \<and> post_id post = k \<and> k \<notin> post_id ` set (posts db)
       \<and> PostDetailView_dispatch (db\<lparr>posts := posts db @ [post], posts_seq := k\<rparr>)
             later (Some viewer) k
           = Inr (TemplateResponse ''blog/detail.html'' (Context_detail post []))
       \<and> (post, 0) \<in> set (ProfileListView_get_queryset
                             (db\<lparr>posts := posts db @ [post], posts_seq := k\<rparr>)
                             later (Some viewer) (username viewer))
       \<and> post_title post = strip (form_title data)
       \<and> post_text post = strip (form_text data)
       \<and> Some (pub_date post) = form_pub_date data
       \<and> post_category post = form_category data
       \<and> post_location post = form_location data
       \<and> post_author post = Some (user_id viewer)
       \<and> post_is_published post = is_published_default"
proof -
  define post where "post = PostForm_save cleaned
                     \<lparr>post_id = k,
                      post_title = [], post_text = [], pub_date = 0,
                      post_author = Some (user_id viewer),
                      post_category = None, post_location = None, post_image = [],
                      post_is_published = is_published_default,
                      post_created_at = now\<rparr>"
  define db' where "db' = db\<lparr>posts := posts db @ [post], posts_seq := k\<rparr>"
  note cl = PostForm_clean_Inr [OF assms(1)]
  have fields: "post_id post = k"
    "post_title post = strip (form_title data)" "post_text post = strip (form_text data)"
    "Some (pub_date post) = form_pub_date data" "post_category post = form_category data"
    "post_location post = form_location data" "post_author post = Some (user_id viewer)"
    "post_is_published post = is_published_default"
    using cl by (simp_all add: post_def PostForm_save_def)
  have fresh: "k \<notin> post_id ` set (posts db)"
    using next_pk_fresh [OF assms(4)] by simp
  have range: "int k \<le> max_int64"
    using next_pk_Inr [OF assms(4)] by simp
  have create: "PostCreateView is_published_default now db
           \<lparr>request_user = Some viewer, request_method = POST data\<rparr>
         = Inr (HttpResponseRedirect (Url_profile (username viewer)), db')"
    using assms(1,4)
    by (simp add: PostCreateView_def LoginRequiredMixin_dispatch_def is_authenticated_def
        PostCreateView_form_valid_def ProfileReverseMixin_get_success_url_def db'_def post_def)
  have "\<forall>p \<in> set (posts db). post_id p \<noteq> k"
    using fresh by (metis imageI)
  then have "filter (\<lambda>p. post_id p = k) (posts db) = []"
    by (simp add: filter_empty_conv)
  then have get: "Post_objects_get db' k = Inr post"
    using range fields(1)
    by (simp add: Post_objects_get_def get_by_pk_or_404_Inr_iff db'_def)
  have "\<forall>c \<in> set (comments db). comment_post c \<noteq> k"
    using fresh assms(2) by metis
  then have "filter (\<lambda>c. comment_post c = post_id post) (comments db') = []"
    by (simp add: filter_empty_conv db'_def fields(1))
  then have none: "post_comments db' post = []" "Count_comments db' post = 0"
    by (simp_all add: post_comments_def order_by_asc_def Count_comments_def)
  have detail: "PostDetailView_dispatch db' later (Some viewer) k
           = Inr (TemplateResponse ''blog/detail.html'' (Context_detail post []))"
    using PostDetailView_dispatch_author [OF get, of "Some viewer" later] fields(7) none(1)
    by (simp add: author_eq_def)
  have "author__username db' (username viewer) post"
    using assms(3) fields(7) by (simp add: author__username_def author_of_def db'_def)
  then have "post \<in> set (order_by_desc pub_date
      (filter (author__username db' (username viewer)) (posts db')))"
    by (simp add: set_order_by_desc db'_def)
  then have "(post, Count_comments db' post) \<in> set (annotate db' (order_by_desc pub_date
      (filter (author__username db' (username viewer)) (posts db'))))"
    unfolding annotate_def set_map by (rule imageI)
  then have listed: "(post, 0) \<in> set (ProfileListView_get_queryset db' later (Some viewer)
      (username viewer))"
    by (simp add: ProfileListView_get_queryset_def request_username_def none(2))
  from create fresh detail listed fields show ?thesis
    unfolding db'_def by blast
qed

theorem created_post_round_trip_witness:
  "PostForm_clean demo_db_located
      \<lparr>form_title = ''Lisbon'', form_text = ''Trams.'', form_pub_date = Some 300,
       form_category = Some 1, form_location = Some 1, form_image = None\<rparr>
     = Inr (Inr \<lparr>cleaned_title = ''Lisbon'', cleaned_text = ''Trams.'', cleaned_pub_date = 300,
            cleaned_category = Some 1, cleaned_location = Some 1, cleaned_image = None\<rparr>)
   \<and> find (\<lambda>u. user_id u = user_id bob) (users demo_db_located) = Some bob
   \<and> next_pk (posts_seq demo_db_located) (map post_id (posts demo_db_located))
       = Inr 6
   \<and> (\<exists>post.
       PostCreateView True 200 demo_db_located
           \<lparr>request_user = Some bob,
            request_method = POST \<lparr>form_title = ''Lisbon'', form_text = ''Trams.'',
              form_pub_date = Some 300, form_category = Some 1, form_location = Some 1,
              form_image = None\<rparr>\<rparr>
         = Inr (HttpResponseRedirect (Url_profile (username bob)),
                demo_db_located\<lparr>posts := posts demo_db_located @ [post], posts_seq := 6\<rparr>)
       \<and> post_id post = 6
       \<and> PostDetailView_dispatch (demo_db_located\<lparr>posts := posts demo_db_located @ [post], posts_seq := 6\<rparr>)
             201 (Some bob) 6
           = Inr (TemplateResponse ''blog/detail.html'' (Context_detail post []))
       \<and> (post, 0) \<in> set (ProfileListView_get_queryset
                             (demo_db_located\<lparr>posts := posts demo_db_located @ [post], posts_seq := 6\<rparr>)
                             201 (Some bob) (username bob))
       \<and> post_title post = ''Lisbon'' \<and> post_text post = ''Trams.'' \<and> pub_date post = 300
       \<and> post_category post = Some 1 \<and> post_location post = Some 1
       \<and> post_author post = Some (user_id bob) \<and> post_is_published post = True)"
proof -
  have h1: "PostForm_clean demo_db_located
      \<lparr>form_title = ''Lisbon'', form_text = ''Trams.'', form_pub_date = Some 300,
       form_category = Some 1, form_location = Some 1, form_image = None\<rparr>
     = Inr (Inr \<lparr>cleaned_title = ''Lisbon'', cleaned_text = ''Trams.'', cleaned_pub_date = 300,
            cleaned_category = Some 1, cleaned_location = Some 1, cleaned_image = None\<rparr>)"
    by code_simp
  have h2: "\<forall>c \<in> set (comments demo_db_located).
      comment_post c \<in> post_id ` set (posts demo_db_located)"
    by code_simp
  have h3: "find (\<lambda>u. user_id u = user_id bob) (users demo_db_located) = Some bob"
    by code_simp
  have h4: "next_pk (posts_seq demo_db_located) (map post_id (posts demo_db_located)) = Inr 6"
    by code_simp
  have s: "strip ''Lisbon'' = ''Lisbon''" "strip ''Trams.'' = ''Trams.''"
    by code_simp+
  from created_post_round_trip [OF h1 h2 h3 h4, of True 200 201] h1 h3 h4
  show ?thesis by (simp add: s) blast
qed

text \<open>
  Claim C9 as stated fails: submitted with the title \<^verbatim>\<open>' Lisbon '\<close>, the
  post is stored and read back by its author with the title \<^verbatim>\<open>'Lisbon'\<close>.
\<close>

theorem created_title_is_stripped:
  "PostCreateView True 200 demo_db_located
       \<lparr>request_user = Some bob,
        request_method = POST \<lparr>form_title = '' Lisbon '', form_text = ''Trams.'',
          form_pub_date = Some 300, form_category = Some 1, form_location = Some 1,
          form_image = None\<rparr>\<rparr>
     = Inr (HttpResponseRedirect (Url_profile ''bob''),
            demo_db_located\<lparr>posts := posts demo_db_located @
               [\<lparr>post_id = 6, post_title = ''Lisbon'', post_text = ''Trams.'', pub_date = 300,
                 post_author = Some 2, post_category = Some 1, post_location = Some 1,
                 post_image = [], post_is_published = True, post_created_at = 200\<rparr>],
               posts_seq := 6\<rparr>)
   \<and> PostDetailView_dispatch
         (demo_db_located\<lparr>posts := posts demo_db_located @
               [\<lparr>post_id = 6, post_title = ''Lisbon'', post_text = ''Trams.'', pub_date = 300,
                 post_author = Some 2, post_category = Some 1, post_location = Some 1,
                 post_image = [], post_is_published = True, post_created_at = 200\<rparr>],
               posts_seq := 6\<rparr>)
         201 (Some bob) 6
     = Inr (TemplateResponse ''blog/detail.html''
              (Context_detail
                 \<lparr>post_id = 6, post_title = ''Lisbon'', post_text = ''Trams.'', pub_date = 300,
                  post_author = Some 2, post_category = Some 1, post_location = Some 1,
                  post_image = [], post_is_published = True, post_created_at = 200\<rparr> []))
   \<and> ''Lisbon'' \<noteq> '' Lisbon ''"
  by code_simp


end
